theory Spec2Isabelle
  imports Main "HOL-Library.Char_ord" "HOL-Library.List_Lexorder"
begin

section \<open>Python strings\<close>

text \<open>
  A Python \<open>str\<close> is a sequence of code points; it is modelled as a \<open>string\<close> whose
  characters are the code points 0 to 255 (one \<open>char\<close> per code point, so \<open>length\<close> is
  Python's \<open>len\<close>). The three character classes below are Python's own on that range:
  \<open>str.isspace\<close> (which is also what \<open>str.strip()\<close> removes and what the regular
  expression class \<open>\s\<close> matches), the decimal digits of \<open>\d\<close>, and \<open>str.lower\<close>.
\<close>

definition py_isspace :: "char \<Rightarrow> bool" where
  "py_isspace c \<longleftrightarrow>
     c \<in> {CHR 0x09, CHR 0x0A, CHR 0x0B, CHR 0x0C, CHR 0x0D, CHR 0x1C, CHR 0x1D, CHR 0x1E,
          CHR 0x1F, CHR 0x20, CHR 0x85, CHR 0xA0}"

definition py_isdigit :: "char \<Rightarrow> bool" where
  "py_isdigit c \<longleftrightarrow> c \<in> set ''0123456789''"

definition py_strip :: "string \<Rightarrow> string" where
  "py_strip s = rev (dropWhile py_isspace (rev (dropWhile py_isspace s)))"

definition py_lower_char :: "char \<Rightarrow> char" where
  "py_lower_char c =
     (let n = (of_char c :: nat)
      in if (65 \<le> n \<and> n \<le> 90) \<or> (192 \<le> n \<and> n \<le> 222 \<and> n \<noteq> 215)
         then char_of (n + 32) else c)"

definition py_lower :: "string \<Rightarrow> string" where
  "py_lower s = map py_lower_char s"

definition startswith :: "string \<Rightarrow> string \<Rightarrow> bool" where
  "startswith s p \<longleftrightarrow> take (length p) s = p"

definition endswith :: "string \<Rightarrow> string \<Rightarrow> bool" where
  "endswith s p \<longleftrightarrow> length p \<le> length s \<and> drop (length s - length p) s = p"

text \<open>\<open>sep.join(xs)\<close>.\<close>

fun py_join :: "string \<Rightarrow> string list \<Rightarrow> string" where
  "py_join sep [] = []"
| "py_join sep [x] = x"
| "py_join sep (x # y # ys) = x @ sep @ py_join sep (y # ys)"

section \<open>Errors\<close>

text \<open>
  Every exception the modelled code raises is a value. \<open>ValueError\<close> and the
  repository's \<open>ConfigError\<close> and \<open>FileIOError\<close> carry their message;
  \<open>ConfigErrorFrom prefix e\<close> is the \<open>ConfigError(f"{prefix}{e}")\<close> that the manager
  raises \<open>from e\<close>, its message being the prefix followed by the text of \<open>e\<close>.
  \<open>ValidationError\<close> is pydantic's. \<open>PermissionError\<close> is Python's, and \<open>OSError\<close>
  stands for every other error of the operating system (\<open>FileNotFoundError\<close>,
  \<open>IsADirectoryError\<close>, \<open>FileExistsError\<close>, a name too long, ...) for bytes that
  do not decode or do not parse, and for a value that cannot be written as TOML.
\<close>

datatype error =
    ValueError string
  | ValidationError
  | PermissionError
  | OSError
  | ConfigError string
  | ConfigErrorFrom string error
  | FileIOError string

section \<open>Schema: the api key\<close>

text \<open>
  \<^verbatim>\<open>
  def validate_api_key(cls, v: str) -> str:
      if not v or not v.strip():
          raise ValueError("api_key cannot be empty")
      return v.strip()
  \<close>
\<close>

definition validate_api_key :: "string \<Rightarrow> error + string" where
  "validate_api_key v =
     (if v = [] \<or> py_strip v = [] then Inl (ValueError ''api_key cannot be empty'')
      else Inr (py_strip v))"

section \<open>Manager: boolean coercion\<close>

datatype bool_or_str = BS_Bool bool | BS_Str string

text \<open>
  \<^verbatim>\<open>
  def _to_bool(value: bool | str) -> bool:
      if isinstance(value, bool):
          return value
      return str(value).strip().lower() in {"1", "true", "yes", "on"}
  \<close>
\<close>

fun to_bool :: "bool_or_str \<Rightarrow> bool" where
  "to_bool (BS_Bool b) = b"
| "to_bool (BS_Str s) = (py_lower (py_strip s) \<in> {''1'', ''true'', ''yes'', ''on''})"

section \<open>Python values\<close>

text \<open>
  The values of a parsed TOML document and of a dumped model: strings, integers,
  booleans, arrays and tables, and Python's \<open>None\<close>. \<open>POther\<close> stands for a leaf of any
  other kind (a float, a date-time), identified by an opaque tag. A \<open>dict\<close> is an
  association list in insertion order.
\<close>

datatype pyval =
    PStr string
  | PInt int
  | PBool bool
  | PNone
  | POther nat
  | PList "pyval list"
  | PDict "(string \<times> pyval) list"

type_synonym pydict = "(string \<times> pyval) list"

section \<open>The file system\<close>

text \<open>
  The paths of the manager. \<open>CONFIG_DIR\<close> is \<open>Path.home() / ".arize"\<close>, the next three
  are its entries \<open>profiles\<close>, \<open>config.toml\<close> and \<open>.active_profile\<close>, and
  \<open>ProfileFile f\<close> is the path expression \<open>PROFILES_DIR / f\<close>. What file a path
  expression reaches (through \<open>..\<close>, a separator in \<open>f\<close>, a symbolic link) is for the
  operating system to say.
\<close>

datatype path =
    CONFIG_DIR
  | PROFILES_DIR
  | DEFAULT_CONFIG_FILE
  | ACTIVE_PROFILE_FILE
  | ProfileFile string

text \<open>
  The operating system is not part of the repository. A state of the file system is a
  value of a type \<open>'fs\<close> of which nothing is known, and the calls the manager makes are
  the fields of a record of functions on it; the manager's functions take this record
  and a state. Each call answers with its value or with the exception it raises, and a
  call that writes also answers with the state it leaves, whether it raised or not.
  \<^item> \<open>fs_exists\<close> is \<open>Path.exists()\<close>, which answers \<open>False\<close> when the path cannot be
    found and raises on any other failure of \<open>stat\<close>, such as a directory on the way
    that may not be searched or a name that is too long;
  \<^item> \<open>fs_is_dir\<close> is \<open>Path.is_dir()\<close>;
  \<^item> \<open>fs_scandir\<close> gives the names of the entries of a directory;
  \<^item> \<open>fs_read_text\<close> is \<open>Path.read_text()\<close>;
  \<^item> \<open>fs_unlink\<close> is \<open>Path.unlink()\<close>;
  \<^item> \<open>fs_mkdir\<close> is \<open>Path.mkdir(parents=True, exist_ok=True)\<close>;
  \<^item> \<open>fs_write_toml p data\<close> is \<open>open(p, "wb")\<close> followed by \<open>tomli_w.dump(data, f)\<close>;
  \<^item> \<open>fs_read_toml p\<close> is \<open>open(p, "rb")\<close> followed by \<open>tomllib.load(f)\<close>.
\<close>

record 'fs os =
  fs_exists :: "'fs \<Rightarrow> path \<Rightarrow> error + bool"
  fs_is_dir :: "'fs \<Rightarrow> path \<Rightarrow> error + bool"
  fs_scandir :: "'fs \<Rightarrow> path \<Rightarrow> error + string list"
  fs_read_text :: "'fs \<Rightarrow> path \<Rightarrow> error + string"
  fs_unlink :: "'fs \<Rightarrow> path \<Rightarrow> (error + unit) \<times> 'fs"
  fs_mkdir :: "'fs \<Rightarrow> path \<Rightarrow> (error + unit) \<times> 'fs"
  fs_write_toml :: "'fs \<Rightarrow> path \<Rightarrow> pyval \<Rightarrow> (error + unit) \<times> 'fs"
  fs_read_toml :: "'fs \<Rightarrow> path \<Rightarrow> error + pydict"

definition ebind :: "error + 'a \<Rightarrow> ('a \<Rightarrow> error + 'b) \<Rightarrow> error + 'b" where
  "ebind m f = (case m of Inl e \<Rightarrow> Inl e | Inr x \<Rightarrow> f x)"

section \<open>Manager: profiles\<close>

text \<open>
  \<^verbatim>\<open>
  def _get_config_path(cls, profile: str) -> Path:
      if profile == "default":
          return cls.DEFAULT_CONFIG_FILE
      return cls.PROFILES_DIR / f"{profile}.toml"
  \<close>
\<close>

definition get_config_path :: "string \<Rightarrow> path" where
  "get_config_path profile_name =
     (if profile_name = ''default'' then DEFAULT_CONFIG_FILE
      else ProfileFile (profile_name @ ''.toml''))"

text \<open>
  \<^verbatim>\<open>
  def exists(cls, profile: str) -> bool:
      return cls._get_config_path(profile).exists()
  \<close>
\<close>

definition exists_profile :: "'fs os \<Rightarrow> 'fs \<Rightarrow> string \<Rightarrow> error + bool" where
  "exists_profile os fs profile_name = fs_exists os fs (get_config_path profile_name)"

text \<open>
  \<^verbatim>\<open>
  def get_active_profile(cls) -> str:
      if cls.ACTIVE_PROFILE_FILE.exists():
          try:
              return cls.ACTIVE_PROFILE_FILE.read_text().strip()
          except Exception:
              return "default"
      return "default"
  \<close>
  The call of \<open>exists()\<close> stands outside the \<open>try\<close>: what it raises leaves the
  function. What \<open>read_text()\<close> raises is caught.
\<close>

definition get_active_profile :: "'fs os \<Rightarrow> 'fs \<Rightarrow> error + string" where
  "get_active_profile os fs =
     (case fs_exists os fs ACTIVE_PROFILE_FILE of
        Inl e \<Rightarrow> Inl e
      | Inr True \<Rightarrow>
          (case fs_read_text os fs ACTIVE_PROFILE_FILE of
             Inr t \<Rightarrow> Inr (py_strip t)
           | Inl e \<Rightarrow> Inr ''default'')
      | Inr False \<Rightarrow> Inr ''default'')"

text \<open>
  \<open>PROFILES_DIR.glob("*.toml")\<close>, as pathlib runs it: nothing when \<open>PROFILES_DIR\<close> is
  not a directory; else the entries of the directory whose name ends in \<open>.toml\<close>
  (hidden ones included, letter case kept), and nothing when listing the directory
  raises \<open>PermissionError\<close>, the one exception the selector catches.
  \<^verbatim>\<open>
  def select_from(self, parent_path):
      ...
      if not is_dir(parent_path):
          return iter([])
      return self._select_from(parent_path, is_dir, exists, scandir)

  def _select_from(self, parent_path, is_dir, exists, scandir):
      try:
          with scandir(parent_path) as scandir_it:
              entries = list(scandir_it)
          for entry in entries:
              ...
              name = entry.name
              if self.match(name):
                  ...
      except PermissionError:
          return
  \<close>
  \<open>Path.stem\<close> is the name without its suffix, where pathlib takes as suffix what
  follows the last dot unless that dot is the first or the last character:
  \<^verbatim>\<open>
  i = name.rfind('.')
  if 0 < i < len(name) - 1: return name[:i]
  else: return name
  \<close>
\<close>

definition glob_toml :: "'fs os \<Rightarrow> 'fs \<Rightarrow> error + string list" where
  "glob_toml os fs =
     (case fs_is_dir os fs PROFILES_DIR of
        Inl e \<Rightarrow> Inl e
      | Inr False \<Rightarrow> Inr []
      | Inr True \<Rightarrow>
          (case fs_scandir os fs PROFILES_DIR of
             Inl PermissionError \<Rightarrow> Inr []
           | Inl e \<Rightarrow> Inl e
           | Inr names \<Rightarrow> Inr (filter (\<lambda>f. endswith f ''.toml'') names)))"

definition rfind :: "char \<Rightarrow> string \<Rightarrow> nat option" where
  "rfind c s =
     (if c \<in> set s then Some (length s - 1 - length (takeWhile (\<lambda>x. x \<noteq> c) (rev s)))
      else None)"

definition stem :: "string \<Rightarrow> string" where
  "stem file_name =
     (case rfind (CHR ''.'') file_name of
        None \<Rightarrow> file_name
      | Some i \<Rightarrow> if 0 < i \<and> i < length file_name - 1 then take i file_name else file_name)"

text \<open>
  \<^verbatim>\<open>
  def list_profiles(cls) -> list[str]:
      """List all available profiles."""
      profiles = ["default"] if cls.DEFAULT_CONFIG_FILE.exists() else []
      if cls.PROFILES_DIR.exists():
          profiles.extend(path.stem for path in cls.PROFILES_DIR.glob("*.toml"))
      return sorted(profiles)
  \<close>
\<close>

definition list_profiles :: "'fs os \<Rightarrow> 'fs \<Rightarrow> error + string list" where
  "list_profiles os fs =
     ebind (fs_exists os fs DEFAULT_CONFIG_FILE) (\<lambda>has_default.
     ebind (fs_exists os fs PROFILES_DIR) (\<lambda>has_dir.
     ebind (if has_dir then glob_toml os fs else Inr []) (\<lambda>names.
     Inr (sort ((if has_default then [''default''] else []) @ map stem names)))))"

text \<open>
  \<^verbatim>\<open>
  def delete_profile(cls, profile: str) -> None:
      if profile == "default":
          raise ConfigError("Cannot delete the default profile")
      if profile == cls.get_active_profile():
          raise ConfigError(
              f"Cannot delete active profile '{profile}'. "
              "Switch to another profile first."
          )
      config_path = cls._get_config_path(profile)
      if config_path.exists():
          config_path.unlink()
  \<close>
\<close>

definition delete_profile :: "'fs os \<Rightarrow> 'fs \<Rightarrow> string \<Rightarrow> (error + unit) \<times> 'fs" where
  "delete_profile os fs profile_name =
     (if profile_name = ''default'' then
        (Inl (ConfigError ''Cannot delete the default profile''), fs)
      else
        (case get_active_profile os fs of
           Inl e \<Rightarrow> (Inl e, fs)
         | Inr active \<Rightarrow>
             if profile_name = active then
               (Inl (ConfigError (''Cannot delete active profile '' @ [CHR 0x27] @ profile_name
                                    @ [CHR 0x27] @ ''. Switch to another profile first.'')), fs)
             else
               (case fs_exists os fs (get_config_path profile_name) of
                  Inl e \<Rightarrow> (Inl e, fs)
                | Inr True \<Rightarrow> fs_unlink os fs (get_config_path profile_name)
                | Inr False \<Rightarrow> (Inr (), fs))))"

section \<open>Schema: the configuration model\<close>

datatype int_or_str = IS_Int int | IS_Str string

record ProfileConfig =
  name :: string

record AuthConfig =
  api_key :: string

record RoutingConfig =
  region :: string
  single_host :: string
  single_port :: string
  base_domain :: string
  api_host :: string
  api_scheme :: string
  otlp_host :: string
  otlp_scheme :: string
  flight_host :: string
  flight_port :: string
  flight_scheme :: string

record TransportConfig =
  stream_max_workers :: int_or_str
  stream_max_queue_bound :: int_or_str
  pyarrow_max_chunksize :: int_or_str
  max_http_payload_size_mb :: int_or_str

record SecurityConfig =
  request_verify :: bool_or_str

record StorageConfig =
  directory :: string
  cache_enabled :: bool

record OutputConfig =
  format :: string

record Config =
  profile :: ProfileConfig
  auth :: AuthConfig
  routing :: RoutingConfig
  transport :: TransportConfig
  security :: SecurityConfig
  storage :: StorageConfig
  output_config :: OutputConfig

text \<open>The defaults of the \<open>Field(default=...)\<close> declarations.\<close>

definition ProfileConfig_default :: ProfileConfig where
  "ProfileConfig_default = \<lparr>name = ''default''\<rparr>"

definition RoutingConfig_default :: RoutingConfig where
  "RoutingConfig_default =
     \<lparr>region = [], single_host = [], single_port = [], base_domain = [],
      api_host = ''api.arize.com'', api_scheme = ''https'',
      otlp_host = ''otlp.arize.com'', otlp_scheme = ''https'',
      flight_host = ''flight.arize.com'', flight_port = ''443'',
      flight_scheme = ''grpc+tls''\<rparr>"

definition TransportConfig_default :: TransportConfig where
  "TransportConfig_default =
     \<lparr>stream_max_workers = IS_Int 8, stream_max_queue_bound = IS_Int 5000,
      pyarrow_max_chunksize = IS_Int 10000, max_http_payload_size_mb = IS_Int 8\<rparr>"

definition SecurityConfig_default :: SecurityConfig where
  "SecurityConfig_default = \<lparr>request_verify = BS_Bool True\<rparr>"

definition StorageConfig_default :: StorageConfig where
  "StorageConfig_default = \<lparr>directory = ''~/.arize'', cache_enabled = True\<rparr>"

definition OutputConfig_default :: OutputConfig where
  "OutputConfig_default = \<lparr>format = ''table''\<rparr>"

definition output_formats :: "string list" where
  "output_formats = [''table'', ''json'', ''csv'', ''parquet'']"

text \<open>
  \<^verbatim>\<open>
  def validate_region(cls, v: str) -> str:
      if v == "":
          return v
      if v.startswith("${") and v.endswith("}"):
          return v
      valid_regions = Region.list_regions()
      if v not in valid_regions:
          raise ValueError(
              f"Invalid region: {v}. Must be empty string or one of: "
              f"{', '.join(valid_regions)}"
          )
      return v
  \<close>
  \<open>Region.list_regions()\<close> belongs to the SDK; the list is the parameter
  \<open>valid_regions\<close>.
\<close>

definition validate_region :: "string list \<Rightarrow> string \<Rightarrow> error + string" where
  "validate_region valid_regions v =
     (if v = [] then Inr v
      else if startswith v ''${'' \<and> endswith v ''}'' then Inr v
      else if v \<notin> set valid_regions then
        Inl (ValueError (''Invalid region: '' @ v @ ''. Must be empty string or one of: ''
                           @ py_join '', '' valid_regions))
      else Inr v)"

text \<open>
  \<^verbatim>\<open>
  def validate_mutually_exclusive(self) -> "RoutingConfig":
      has_region = bool(self.region)
      has_single = bool(self.single_host) or bool(self.single_port)
      has_base_domain = bool(self.base_domain)
      active_count = sum([has_region, has_single, has_base_domain])
      if active_count > 1:
          raise ValueError(
              "Only one routing option allowed: region, single_host/port, "
              "or base_domain"
          )
      return self
  \<close>
\<close>

definition validate_mutually_exclusive :: "RoutingConfig \<Rightarrow> error + RoutingConfig" where
  "validate_mutually_exclusive self =
     (let has_region = (region self \<noteq> []);
          has_single = (single_host self \<noteq> [] \<or> single_port self \<noteq> []);
          has_base_domain = (base_domain self \<noteq> []);
          active_count = sum_list (map of_bool [has_region, has_single, has_base_domain]) :: nat
      in if active_count > 1 then
           Inl (ValueError
                  ''Only one routing option allowed: region, single_host/port, or base_domain'')
         else Inr self)"

section \<open>Schema: constructing a model from a mapping\<close>

text \<open>
  \<open>Config(**data)\<close> runs pydantic's validation of the declarations above on a mapping:
  an absent field takes its default (the default is not validated), a present one must
  have the declared type, and the decorated validators run on the validated value. A
  value of exactly a declared type is taken as it is; for any other value pydantic tries
  its lax conversions, which are not part of the repository and are the parameters
  \<open>lax_int_or_str\<close>, \<open>lax_bool_or_str\<close> and \<open>lax_bool\<close> (each answers \<open>None\<close> where
  pydantic rejects). A \<open>str\<close> field and a \<open>Literal\<close> field accept strings only. Nested
  models ignore unknown keys, the root model forbids them
  (\<open>model_config = {"extra": "forbid"}\<close>). Every failure is one \<open>ValidationError\<close>.
  The field \<open>output\<close> of \<open>Config\<close> is written \<open>output_config\<close>, \<open>output\<close> being a
  reserved word here.
\<close>

record lax =
  lax_int_or_str :: "pyval \<Rightarrow> int_or_str option"
  lax_bool_or_str :: "pyval \<Rightarrow> bool_or_str option"
  lax_bool :: "pyval \<Rightarrow> bool option"

definition as_validation_error :: "error + 'a \<Rightarrow> error + 'a" where
  "as_validation_error m = (case m of Inl e \<Rightarrow> Inl ValidationError | Inr x \<Rightarrow> Inr x)"

definition str_field :: "pydict \<Rightarrow> string \<Rightarrow> string \<Rightarrow> error + string" where
  "str_field d key dflt =
     (case map_of d key of
        None \<Rightarrow> Inr dflt
      | Some (PStr s) \<Rightarrow> Inr s
      | Some _ \<Rightarrow> Inl ValidationError)"

definition int_or_str_field :: "lax \<Rightarrow> pydict \<Rightarrow> string \<Rightarrow> int_or_str \<Rightarrow> error + int_or_str" where
  "int_or_str_field lx d key dflt =
     (case map_of d key of
        None \<Rightarrow> Inr dflt
      | Some (PInt i) \<Rightarrow> Inr (IS_Int i)
      | Some (PStr s) \<Rightarrow> Inr (IS_Str s)
      | Some v \<Rightarrow> (case lax_int_or_str lx v of None \<Rightarrow> Inl ValidationError | Some x \<Rightarrow> Inr x))"

definition bool_or_str_field :: "lax \<Rightarrow> pydict \<Rightarrow> string \<Rightarrow> bool_or_str \<Rightarrow> error + bool_or_str" where
  "bool_or_str_field lx d key dflt =
     (case map_of d key of
        None \<Rightarrow> Inr dflt
      | Some (PBool b) \<Rightarrow> Inr (BS_Bool b)
      | Some (PStr s) \<Rightarrow> Inr (BS_Str s)
      | Some v \<Rightarrow> (case lax_bool_or_str lx v of None \<Rightarrow> Inl ValidationError | Some x \<Rightarrow> Inr x))"

definition bool_field :: "lax \<Rightarrow> pydict \<Rightarrow> string \<Rightarrow> bool \<Rightarrow> error + bool" where
  "bool_field lx d key dflt =
     (case map_of d key of
        None \<Rightarrow> Inr dflt
      | Some (PBool b) \<Rightarrow> Inr b
      | Some v \<Rightarrow> (case lax_bool lx v of None \<Rightarrow> Inl ValidationError | Some x \<Rightarrow> Inr x))"

definition ProfileConfig_validate :: "pydict \<Rightarrow> error + ProfileConfig" where
  "ProfileConfig_validate d =
     ebind (str_field d ''name'' (name ProfileConfig_default)) (\<lambda>n. Inr \<lparr>name = n\<rparr>)"

definition AuthConfig_validate :: "pydict \<Rightarrow> error + AuthConfig" where
  "AuthConfig_validate d =
     (case map_of d ''api_key'' of
        Some (PStr s) \<Rightarrow>
          ebind (as_validation_error (validate_api_key s)) (\<lambda>k. Inr \<lparr>api_key = k\<rparr>)
      | _ \<Rightarrow> Inl ValidationError)"

definition RoutingConfig_validate :: "string list \<Rightarrow> pydict \<Rightarrow> error + RoutingConfig" where
  "RoutingConfig_validate valid_regions d =
     ebind (ebind (str_field d ''region'' (region RoutingConfig_default))
              (\<lambda>v. as_validation_error (validate_region valid_regions v))) (\<lambda>f1.
     ebind (str_field d ''single_host'' (single_host RoutingConfig_default)) (\<lambda>f2.
     ebind (str_field d ''single_port'' (single_port RoutingConfig_default)) (\<lambda>f3.
     ebind (str_field d ''base_domain'' (base_domain RoutingConfig_default)) (\<lambda>f4.
     ebind (str_field d ''api_host'' (api_host RoutingConfig_default)) (\<lambda>f5.
     ebind (str_field d ''api_scheme'' (api_scheme RoutingConfig_default)) (\<lambda>f6.
     ebind (str_field d ''otlp_host'' (otlp_host RoutingConfig_default)) (\<lambda>f7.
     ebind (str_field d ''otlp_scheme'' (otlp_scheme RoutingConfig_default)) (\<lambda>f8.
     ebind (str_field d ''flight_host'' (flight_host RoutingConfig_default)) (\<lambda>f9.
     ebind (str_field d ''flight_port'' (flight_port RoutingConfig_default)) (\<lambda>f10.
     ebind (str_field d ''flight_scheme'' (flight_scheme RoutingConfig_default)) (\<lambda>f11.
     as_validation_error (validate_mutually_exclusive
       \<lparr>region = f1, single_host = f2, single_port = f3, base_domain = f4,
        api_host = f5, api_scheme = f6, otlp_host = f7, otlp_scheme = f8,
        flight_host = f9, flight_port = f10, flight_scheme = f11\<rparr>))))))))))))"

definition TransportConfig_validate :: "lax \<Rightarrow> pydict \<Rightarrow> error + TransportConfig" where
  "TransportConfig_validate lx d =
     ebind (int_or_str_field lx d ''stream_max_workers''
              (stream_max_workers TransportConfig_default)) (\<lambda>f1.
     ebind (int_or_str_field lx d ''stream_max_queue_bound''
              (stream_max_queue_bound TransportConfig_default)) (\<lambda>f2.
     ebind (int_or_str_field lx d ''pyarrow_max_chunksize''
              (pyarrow_max_chunksize TransportConfig_default)) (\<lambda>f3.
     ebind (int_or_str_field lx d ''max_http_payload_size_mb''
              (max_http_payload_size_mb TransportConfig_default)) (\<lambda>f4.
     Inr \<lparr>stream_max_workers = f1, stream_max_queue_bound = f2,
          pyarrow_max_chunksize = f3, max_http_payload_size_mb = f4\<rparr>))))"

definition SecurityConfig_validate :: "lax \<Rightarrow> pydict \<Rightarrow> error + SecurityConfig" where
  "SecurityConfig_validate lx d =
     ebind (bool_or_str_field lx d ''request_verify'' (request_verify SecurityConfig_default))
       (\<lambda>f1. Inr \<lparr>request_verify = f1\<rparr>)"

definition StorageConfig_validate :: "lax \<Rightarrow> pydict \<Rightarrow> error + StorageConfig" where
  "StorageConfig_validate lx d =
     ebind (str_field d ''directory'' (directory StorageConfig_default)) (\<lambda>f1.
     ebind (bool_field lx d ''cache_enabled'' (cache_enabled StorageConfig_default)) (\<lambda>f2.
     Inr \<lparr>directory = f1, cache_enabled = f2\<rparr>))"

definition OutputConfig_validate :: "pydict \<Rightarrow> error + OutputConfig" where
  "OutputConfig_validate d =
     ebind (str_field d ''format'' (format OutputConfig_default)) (\<lambda>f1.
     if f1 \<in> set output_formats then Inr \<lparr>format = f1\<rparr> else Inl ValidationError)"

definition sub_model :: "pydict \<Rightarrow> string \<Rightarrow> 'a option \<Rightarrow> (pydict \<Rightarrow> error + 'a) \<Rightarrow> error + 'a" where
  "sub_model d key dflt validate =
     (case map_of d key of
        None \<Rightarrow> (case dflt of None \<Rightarrow> Inl ValidationError | Some x \<Rightarrow> Inr x)
      | Some (PDict sd) \<Rightarrow> validate sd
      | Some _ \<Rightarrow> Inl ValidationError)"

definition Config_fields :: "string list" where
  "Config_fields =
     [''profile'', ''auth'', ''routing'', ''transport'', ''security'', ''storage'', ''output'']"

definition Config_validate :: "lax \<Rightarrow> string list \<Rightarrow> pydict \<Rightarrow> error + Config" where
  "Config_validate lx valid_regions d =
     (if \<not> list_all (\<lambda>k. k \<in> set Config_fields) (map fst d) then Inl ValidationError
      else
     ebind (sub_model d ''profile'' (Some ProfileConfig_default) ProfileConfig_validate) (\<lambda>s1.
     ebind (sub_model d ''auth'' None AuthConfig_validate) (\<lambda>s2.
     ebind (sub_model d ''routing'' (Some RoutingConfig_default)
              (RoutingConfig_validate valid_regions)) (\<lambda>s3.
     ebind (sub_model d ''transport'' (Some TransportConfig_default)
              (TransportConfig_validate lx)) (\<lambda>s4.
     ebind (sub_model d ''security'' (Some SecurityConfig_default)
              (SecurityConfig_validate lx)) (\<lambda>s5.
     ebind (sub_model d ''storage'' (Some StorageConfig_default)
              (StorageConfig_validate lx)) (\<lambda>s6.
     ebind (sub_model d ''output'' (Some OutputConfig_default) OutputConfig_validate) (\<lambda>s7.
     Inr \<lparr>profile = s1, auth = s2, routing = s3, transport = s4, security = s5,
          storage = s6, output_config = s7\<rparr>))))))))"

text \<open>
  \<open>config.model_dump(mode="json", exclude_none=True)\<close>: the fields in declaration order;
  no field of the model is ever \<open>None\<close>.
\<close>

definition dump_int_or_str :: "int_or_str \<Rightarrow> pyval" where
  "dump_int_or_str x = (case x of IS_Int i \<Rightarrow> PInt i | IS_Str s \<Rightarrow> PStr s)"

definition dump_bool_or_str :: "bool_or_str \<Rightarrow> pyval" where
  "dump_bool_or_str x = (case x of BS_Bool b \<Rightarrow> PBool b | BS_Str s \<Rightarrow> PStr s)"

definition model_dump :: "Config \<Rightarrow> pydict" where
  "model_dump c =
     [(''profile'', PDict [(''name'', PStr (name (profile c)))]),
      (''auth'', PDict [(''api_key'', PStr (api_key (auth c)))]),
      (''routing'', PDict
         [(''region'', PStr (region (routing c))),
          (''single_host'', PStr (single_host (routing c))),
          (''single_port'', PStr (single_port (routing c))),
          (''base_domain'', PStr (base_domain (routing c))),
          (''api_host'', PStr (api_host (routing c))),
          (''api_scheme'', PStr (api_scheme (routing c))),
          (''otlp_host'', PStr (otlp_host (routing c))),
          (''otlp_scheme'', PStr (otlp_scheme (routing c))),
          (''flight_host'', PStr (flight_host (routing c))),
          (''flight_port'', PStr (flight_port (routing c))),
          (''flight_scheme'', PStr (flight_scheme (routing c)))]),
      (''transport'', PDict
         [(''stream_max_workers'', dump_int_or_str (stream_max_workers (transport c))),
          (''stream_max_queue_bound'', dump_int_or_str (stream_max_queue_bound (transport c))),
          (''pyarrow_max_chunksize'', dump_int_or_str (pyarrow_max_chunksize (transport c))),
          (''max_http_payload_size_mb'',
             dump_int_or_str (max_http_payload_size_mb (transport c)))]),
      (''security'', PDict
         [(''request_verify'', dump_bool_or_str (request_verify (security c)))]),
      (''storage'', PDict
         [(''directory'', PStr (directory (storage c))),
          (''cache_enabled'', PBool (cache_enabled (storage c)))]),
      (''output'', PDict [(''format'', PStr (format (output_config c)))])]"

section \<open>Manager: dropping empty values\<close>

text \<open>
  \<^verbatim>\<open>
  def _remove_empty_values(obj):
      if isinstance(obj, dict):
          return {
              k: _remove_empty_values(v)
              for k, v in obj.items()
              if v != "" and v is not None
          }
      return obj
  \<close>
\<close>

fun remove_empty_values :: "pyval \<Rightarrow> pyval" where
  "remove_empty_values (PDict kvs) =
     PDict (map (\<lambda>(k, v). (k, remove_empty_values v))
              (filter (\<lambda>(k, v). v \<noteq> PStr [] \<and> v \<noteq> PNone) kvs))"
| "remove_empty_values v = v"

section \<open>Manager: environment-variable expansion\<close>

text \<open>
  \<^verbatim>\<open>
  pattern = r"\$\{([^}:]+)(?::([^}]*))?\}"
  \<close>
  \<open>match_var s\<close> is one attempt of the pattern at the head of \<open>s\<close>: the two groups and
  the text after the match. After \<open>${\<close> the first group takes the longest run of
  characters other than \<open>}\<close> and \<open>:\<close>; a shorter run would be followed by a character of
  the run, where neither \<open>:\<close> nor \<open>}\<close> can match, so backtracking finds nothing else. The
  same holds for the second group after a colon.
\<close>

definition name_char :: "char \<Rightarrow> bool" where
  "name_char c \<longleftrightarrow> c \<noteq> CHR ''}'' \<and> c \<noteq> CHR '':''"

definition default_char :: "char \<Rightarrow> bool" where
  "default_char c \<longleftrightarrow> c \<noteq> CHR ''}''"

definition match_var :: "string \<Rightarrow> (string \<times> string option \<times> string) option" where
  "match_var s =
     (if startswith s ''${'' then
        (let t = drop 2 s; var_name = takeWhile name_char t; u = dropWhile name_char t
         in if var_name = [] then None
            else if startswith u ''}'' then Some (var_name, None, drop 1 u)
            else if startswith u '':'' then
              (let v = drop 1 u; default_value = takeWhile default_char v;
                   w = dropWhile default_char v
               in if startswith w ''}'' then Some (var_name, Some default_value, drop 1 w)
                  else None)
            else None)
      else None)"

text \<open>
  \<^verbatim>\<open>
  def replace_var(match: re.Match) -> str:
      var_name = match.group(1)
      default_value = match.group(2)
      env_value = os.environ.get(var_name)
      if env_value is not None:
          return env_value
      if default_value is not None:
          return default_value
      raise ValueError(
          f"Environment variable {var_name} is not set and no default provided"
      )
  \<close>
  The process environment is the map \<open>environ\<close>.
\<close>

definition replace_var :: "(string \<rightharpoonup> string) \<Rightarrow> string \<Rightarrow> string option \<Rightarrow> error + string" where
  "replace_var environ var_name default_value =
     (case environ var_name of
        Some env_value \<Rightarrow> Inr env_value
      | None \<Rightarrow>
          (case default_value of
             Some d \<Rightarrow> Inr d
           | None \<Rightarrow>
               Inl (ValueError (''Environment variable '' @ var_name
                                  @ '' is not set and no default provided''))))"

text \<open>
  \<open>re.sub(pattern, replace_var, value)\<close> scans \<open>value\<close> from the left: where the pattern
  matches, the match is replaced by what \<open>replace_var\<close> returns (which is not scanned
  again) and the scan goes on after the match; elsewhere the character is copied. The
  first \<open>replace_var\<close> that raises ends the call.
\<close>

function expand_env_var :: "(string \<rightharpoonup> string) \<Rightarrow> string \<Rightarrow> error + string" where
  "expand_env_var environ [] = Inr []"
| "expand_env_var environ (c # s) =
     (case match_var (c # s) of
        None \<Rightarrow> ebind (expand_env_var environ s) (\<lambda>r. Inr (c # r))
      | Some (var_name, default_value, rest) \<Rightarrow>
          ebind (replace_var environ var_name default_value) (\<lambda>x.
          ebind (expand_env_var environ rest) (\<lambda>r. Inr (x @ r))))"
  by pat_completeness auto
termination
proof (relation "measure (\<lambda>(environ, s). length s)", goal_cases)
  case 1
  show ?case by simp
next
  case (2 environ c s)
  show ?case by simp
next
  case (3 environ c s x2 x y xa ya)
  have a: "length (dropWhile name_char (drop 2 (c # s))) \<le> length s"
    using length_dropWhile_le [of name_char "drop 2 (c # s)"] by simp
  have b: "length (dropWhile default_char (drop 1 (dropWhile name_char (drop 2 (c # s)))))
             \<le> length s"
    using length_dropWhile_le
            [of default_char "drop 1 (dropWhile name_char (drop 2 (c # s)))"] a
    by simp
  from 3 a b show ?case
    by (auto simp: match_var_def Let_def split: if_splits)
qed

text \<open>
  \<^verbatim>\<open>
  def _expand_config_dict(data: dict[str, Any]) -> dict[str, Any]:
      result: dict[str, Any] = {}
      for key, value in data.items():
          if isinstance(value, dict):
              result[key] = _expand_config_dict(value)
          elif isinstance(value, str):
              result[key] = _expand_env_var(value)
          else:
              result[key] = value
      return result
  \<close>
\<close>

function expand_config_dict :: "(string \<rightharpoonup> string) \<Rightarrow> pydict \<Rightarrow> error + pydict" where
  "expand_config_dict environ [] = Inr []"
| "expand_config_dict environ ((key, v) # kvs) =
     ebind (case v of
              PDict d \<Rightarrow> ebind (expand_config_dict environ d) (\<lambda>r. Inr (PDict r))
            | PStr s \<Rightarrow> ebind (expand_env_var environ s) (\<lambda>r. Inr (PStr r))
            | _ \<Rightarrow> Inr v) (\<lambda>v'.
     ebind (expand_config_dict environ kvs) (\<lambda>r. Inr ((key, v') # r)))"
  by pat_completeness auto
termination
  by (relation "measure (\<lambda>(environ, kvs). size (PDict kvs))") auto

section \<open>Manager: saving and loading a profile\<close>

text \<open>
  \<^verbatim>\<open>
  def _ensure_dirs(cls) -> None:
      cls.CONFIG_DIR.mkdir(parents=True, exist_ok=True)
      cls.PROFILES_DIR.mkdir(parents=True, exist_ok=True)
  \<close>
\<close>

definition ensure_dirs :: "'fs os \<Rightarrow> 'fs \<Rightarrow> (error + unit) \<times> 'fs" where
  "ensure_dirs os fs =
     (case fs_mkdir os fs CONFIG_DIR of
        (Inl e, fs1) \<Rightarrow> (Inl e, fs1)
      | (Inr u, fs1) \<Rightarrow> fs_mkdir os fs1 PROFILES_DIR)"

text \<open>
  \<^verbatim>\<open>
  def save(cls, config: Config, profile: str = "default") -> None:
      cls._ensure_dirs()
      config_path = cls._get_config_path(profile)
      try:
          config.profile.name = profile
          data = config.model_dump(mode="json", exclude_none=True)
          data = _remove_empty_values(data)
          with open(config_path, "wb") as f:
              tomli_w.dump(data, f)
      except Exception as e:
          raise ConfigError(f"Failed to save config: {e}") from e
  \<close>
  \<open>save\<close> changes its argument and the disk, so the model returns the outcome together
  with the configuration object and the file system as the call leaves them. What
  \<open>_ensure_dirs\<close> raises leaves \<open>save\<close> as it is, before the configuration is touched.
\<close>

definition save ::
  "'fs os \<Rightarrow> Config \<Rightarrow> string \<Rightarrow> 'fs \<Rightarrow> (error + unit) \<times> Config \<times> 'fs" where
  "save os config pname fs =
     (case ensure_dirs os fs of
        (Inl e, fs1) \<Rightarrow> (Inl e, config, fs1)
      | (Inr u, fs1) \<Rightarrow>
          (let config_path = get_config_path pname;
               config1 = config\<lparr>profile := (profile config)\<lparr>name := pname\<rparr>\<rparr>;
               data = remove_empty_values (PDict (model_dump config1))
           in case fs_write_toml os fs1 config_path data of
                (Inl e, fs2) \<Rightarrow>
                  (Inl (ConfigErrorFrom ''Failed to save config: '' e), config1, fs2)
              | (Inr u, fs2) \<Rightarrow> (Inr (), config1, fs2)))"

text \<open>
  \<^verbatim>\<open>
  def load(cls, profile: str, expand_env_vars: bool = True) -> Config:
      if not profile:
          profile = cls.get_active_profile()
      config_path = cls._get_config_path(profile)
      if not config_path.exists():
          raise ConfigError(
              f"Profile '{profile}' not found.\n\n"
              "Run 'ax config init' to create a configuration.\n"
              "Or specify a different profile with --profile"
          )
      try:
          with open(config_path, "rb") as f:
              data = tomllib.load(f)
          if expand_env_vars:
              data = _expand_config_dict(data)
          return Config(**data)
      except ValidationError as e:
          raise ConfigError(f"Invalid config file: {e}") from e
      except Exception as e:
          raise ConfigError(f"Failed to load config: {e}") from e
  \<close>
\<close>

definition not_found_message :: "string \<Rightarrow> string" where
  "not_found_message pname =
     ''Profile '' @ [CHR 0x27] @ pname @ [CHR 0x27] @ '' not found.'' @ [CHR 0x0A, CHR 0x0A]
     @ ''Run '' @ [CHR 0x27] @ ''ax config init'' @ [CHR 0x27] @ '' to create a configuration.''
     @ [CHR 0x0A] @ ''Or specify a different profile with --profile''"

definition load ::
  "'fs os \<Rightarrow> lax \<Rightarrow> string list \<Rightarrow> (string \<rightharpoonup> string) \<Rightarrow> 'fs \<Rightarrow> string \<Rightarrow> bool
     \<Rightarrow> error + Config" where
  "load os lx valid_regions environ fs pname expand_env_vars =
     ebind (if pname = [] then get_active_profile os fs else Inr pname) (\<lambda>pname1.
     ebind (fs_exists os fs (get_config_path pname1)) (\<lambda>found.
     if \<not> found then Inl (ConfigError (not_found_message pname1))
     else
       (case ebind (fs_read_toml os fs (get_config_path pname1)) (\<lambda>data.
             ebind (if expand_env_vars then expand_config_dict environ data else Inr data)
               (Config_validate lx valid_regions)) of
          Inl ValidationError \<Rightarrow> Inl (ConfigErrorFrom ''Invalid config file: '' ValidationError)
        | Inl e \<Rightarrow> Inl (ConfigErrorFrom ''Failed to load config: '' e)
        | Inr config \<Rightarrow> Inr config)))"

section \<open>Error formatter: transport errors\<close>

text \<open>
  \<^verbatim>\<open>
  grpc_to_http = {
      0: (200, "OK"), 1: (499, "Client Closed Request"),
      2: (500, "Internal Server Error"), 3: (400, "Invalid Argument"),
      4: (504, "Gateway Timeout"), 5: (404, "Not Found"), 6: (409, "Conflict"),
      7: (403, "Permission Denied"), 8: (429, "Too Many Requests"),
      9: (412, "Failed Precondition"), 10: (409, "Conflict"),
      11: (400, "Out of Range"), 12: (501, "Not Implemented"),
      13: (500, "Internal Server Error"), 14: (503, "Service Unavailable"),
      15: (500, "Internal Server Error"), 16: (401, "Unauthenticated"),
  }
  \<close>
\<close>

definition grpc_to_http :: "(int \<times> int \<times> string) list" where
  "grpc_to_http =
     [(0, 200, ''OK''), (1, 499, ''Client Closed Request''),
      (2, 500, ''Internal Server Error''), (3, 400, ''Invalid Argument''),
      (4, 504, ''Gateway Timeout''), (5, 404, ''Not Found''), (6, 409, ''Conflict''),
      (7, 403, ''Permission Denied''), (8, 429, ''Too Many Requests''),
      (9, 412, ''Failed Precondition''), (10, 409, ''Conflict''),
      (11, 400, ''Out of Range''), (12, 501, ''Not Implemented''),
      (13, 500, ''Internal Server Error''), (14, 503, ''Service Unavailable''),
      (15, 500, ''Internal Server Error''), (16, 401, ''Unauthenticated'')]"

text \<open>
  The dataclass \<open>ParsedError\<close>; its fields \<open>type\<close> and \<open>instance\<close> are written
  \<open>type_field\<close> and \<open>instance_field\<close>.
\<close>

record ParsedError =
  title :: "string option"
  status :: "int option"
  type_field :: "string option"
  detail :: "string option"
  instance_field :: "string option"
  reason :: "string option"
  headers :: "(string \<times> string) list option"
  body :: "string option"

text \<open>
  An exception with its \<open>__cause__\<close> chain is the list of the exceptions met on the
  chain, the raised one first. Only two things about an exception matter to
  \<open>parse_grpc_error\<close>: whether it is a \<open>RuntimeError\<close>, and then its text.
\<close>

datatype exn = RuntimeError string | OtherException

text \<open>
  \<open>re.search\<close> tries the pattern at every position from the left and returns the first
  match. The three patterns, each as one attempt at the head of the text, giving
  group 1:

  \<open>with message:\s*([^.]+)\.?\s*gRPC\<close>: \<open>\s*\<close> takes the longest run of whitespace
  first and gives characters back one at a time; for each, the group takes the longest
  run without a dot first and then shorter ones, until what follows is an optional dot,
  whitespace and \<open>gRPC\<close>.

  \<open>grpc_message:"([^"]+)"\<close> and \<open>grpc_status:(\d+)\<close>: the group is the longest run,
  which must not be empty.
\<close>

fun first_some :: "('a \<Rightarrow> 'b option) \<Rightarrow> 'a list \<Rightarrow> 'b option" where
  "first_some f [] = None"
| "first_some f (x # xs) = (case f x of Some y \<Rightarrow> Some y | None \<Rightarrow> first_some f xs)"

fun re_search :: "(string \<Rightarrow> 'a option) \<Rightarrow> string \<Rightarrow> 'a option" where
  "re_search m [] = m []"
| "re_search m (c # s) = (case m (c # s) of Some x \<Rightarrow> Some x | None \<Rightarrow> re_search m s)"

definition ws_then_gRPC :: "string \<Rightarrow> bool" where
  "ws_then_gRPC t \<longleftrightarrow> startswith (dropWhile py_isspace t) ''gRPC''"

definition after_group :: "string \<Rightarrow> bool" where
  "after_group t \<longleftrightarrow>
     (if startswith t ''.'' then ws_then_gRPC (drop 1 t) \<or> ws_then_gRPC t
      else ws_then_gRPC t)"

definition match_group :: "string \<Rightarrow> string option" where
  "match_group r =
     (let run = takeWhile (\<lambda>c. c \<noteq> CHR ''.'') r
      in first_some (\<lambda>g. if after_group (drop g r) then Some (take g r) else None)
           (rev [1..<Suc (length run)]))"

definition match_with_message :: "string \<Rightarrow> string option" where
  "match_with_message s =
     (if startswith s ''with message:'' then
        (let r = drop 13 s; a = length (takeWhile py_isspace r)
         in first_some (\<lambda>k. match_group (drop k r)) (rev [0..<Suc a]))
      else None)"

definition match_grpc_message :: "string \<Rightarrow> string option" where
  "match_grpc_message s =
     (if startswith s (''grpc_message:'' @ [CHR 0x22]) then
        (let r = drop 14 s; g = takeWhile (\<lambda>c. c \<noteq> CHR 0x22) r
         in if g \<noteq> [] \<and> startswith (drop (length g) r) [CHR 0x22] then Some g else None)
      else None)"

definition match_grpc_status :: "string \<Rightarrow> string option" where
  "match_grpc_status s =
     (if startswith s ''grpc_status:'' then
        (let g = takeWhile py_isdigit (drop 12 s) in if g \<noteq> [] then Some g else None)
      else None)"

text \<open>
  Python's \<open>int\<close> of a non-empty string of decimal digits. It raises when the string
  has more digits than \<open>sys.get_int_max_str_digits()\<close>, 4300 unless the limit has been
  changed.
\<close>

function str_of_nat :: "nat \<Rightarrow> string" where
  "str_of_nat n =
     (if n < 10 then [char_of (48 + n)] else str_of_nat (n div 10) @ [char_of (48 + n mod 10)])"
  by pat_completeness auto
termination
  by (relation "measure (\<lambda>n. n)") auto

definition py_int :: "string \<Rightarrow> error + int" where
  "py_int ds =
     (if 4300 < length ds then
        Inl (ValueError
               (''Exceeds the limit (4300 digits) for integer string conversion: value has ''
                @ str_of_nat (length ds)
                @ '' digits; use sys.set_int_max_str_digits() to increase the limit''))
      else Inr (foldl (\<lambda>a c. 10 * a + (of_char c - 48)) 0 ds))"

text \<open>
  \<^verbatim>\<open>
  def parse_grpc_error(exception: Exception) -> ParsedError | None:
      current: BaseException | None = exception
      while current is not None:
          if isinstance(current, RuntimeError):
              error_text = str(current)
              message_match = re.search(
                  r"with message:\s*([^.]+)\.?\s*gRPC", error_text
              )
              if not message_match:
                  message_match = re.search(r'grpc_message:"([^"]+)"', error_text)
              if message_match:
                  user_message = message_match.group(1).strip()
                  grpc_status = -1
                  status_match = re.search(r"grpc_status:(\d+)", error_text)
                  if status_match:
                      grpc_status = int(status_match.group(1))
                  http_status, reason = grpc_to_http.get(
                      grpc_status, (500, "Server Error")
                  )
                  return ParsedError(
                      status=http_status,
                      reason=reason,
                      detail=user_message,
                      body=error_text
                      if len(error_text) < 500
                      else error_text[:500] + "...",
                  )
          current = getattr(current, "__cause__", None)
      return None
  \<close>
\<close>

definition message_match :: "string \<Rightarrow> string option" where
  "message_match error_text =
     (case re_search match_with_message error_text of
        Some m \<Rightarrow> Some m
      | None \<Rightarrow> re_search match_grpc_message error_text)"

definition grpc_error_of_text :: "string \<Rightarrow> string \<Rightarrow> error + ParsedError" where
  "grpc_error_of_text error_text m =
     (let user_message = py_strip m
      in ebind (case re_search match_grpc_status error_text of
                  Some g \<Rightarrow> py_int g
                | None \<Rightarrow> Inr (- 1)) (\<lambda>grpc_status.
         let (http_status, reason1) = (case map_of grpc_to_http grpc_status of
                                         Some x \<Rightarrow> x
                                       | None \<Rightarrow> (500, ''Server Error''))
         in Inr \<lparr>title = None, status = Some http_status, type_field = None,
                 detail = Some user_message, instance_field = None, reason = Some reason1,
                 headers = None,
                 body = Some (if length error_text < 500 then error_text
                              else take 500 error_text @ ''...'')\<rparr>))"

fun parse_grpc_error :: "exn list \<Rightarrow> error + ParsedError option" where
  "parse_grpc_error [] = Inr None"
| "parse_grpc_error (OtherException # causes) = parse_grpc_error causes"
| "parse_grpc_error (RuntimeError error_text # causes) =
     (case message_match error_text of
        Some m \<Rightarrow> ebind (grpc_error_of_text error_text m) (\<lambda>parsed. Inr (Some parsed))
      | None \<Rightarrow> parse_grpc_error causes)"

section \<open>Output: the dispatcher\<close>

datatype formatter = TableFormatter | JSONFormatter | CSVFormatter | ParquetFormatter

definition formatters :: "(string \<times> formatter) list" where
  "formatters =
     [(''table'', TableFormatter), (''json'', JSONFormatter), (''csv'', CSVFormatter),
      (''parquet'', ParquetFormatter)]"

text \<open>
  \<^verbatim>\<open>
  def get_formatter(format_type: str) -> OutputFormatter:
      formatters = {"table": TableFormatter, "json": JSONFormatter,
                    "csv": CSVFormatter, "parquet": ParquetFormatter}
      formatter_class = formatters.get(format_type.lower())
      if not formatter_class:
          raise ValueError(
              f"Unsupported format: {format_type}. "
              f"Supported formats: {', '.join(formatters.keys())}"
          )
      return formatter_class()
  \<close>
\<close>

definition get_formatter :: "string \<Rightarrow> error + formatter" where
  "get_formatter format_type =
     (case map_of formatters (py_lower format_type) of
        None \<Rightarrow>
          Inl (ValueError (''Unsupported format: '' @ format_type @ ''. ''
                             @ ''Supported formats: '' @ py_join '', '' (map fst formatters)))
      | Some formatter_class \<Rightarrow> Inr formatter_class)"

text \<open>
  The \<open>format\<close> methods. What is rendered is the business of the table, JSON, CSV and
  Parquet libraries; the model keeps where the rendering goes and whether the call
  raises. Writing to a file can fail: \<open>write_error path\<close> is \<open>None\<close> when the write to
  \<open>path\<close> succeeds and the text of the exception otherwise.
  \<^verbatim>\<open>
  class TableFormatter:
      def format(self, data, output_file=""):
          if output_file:
              raise FileIOError("Table format can only be output to terminal (stdout)")
          ...
  class JSONFormatter:
      def format(self, data, output_file=""):
          ...
          if output_file:
              try:
                  Path(output_file).write_text(json_str)
              except Exception as e:
                  raise FileIOError(f"Failed to write JSON file: {e}") from e
          else:
              text(json_str)
  class CSVFormatter:      (as JSONFormatter, "Failed to write CSV file: ")
  class ParquetFormatter:
      def format(self, data, output_file=""):
          if not output_file:
              raise FileIOError("Parquet format requires an output file. "
                                "Use --output to specify a file path.")
          df = self._to_dataframe(data)
          try:
              df.to_parquet(output_file, index=False)
          except Exception as e:
              raise FileIOError(f"Failed to write Parquet file: {e}") from e
  \<close>
\<close>

datatype destination = Stdout | ToFile string

definition write_to_file :: "(string \<Rightarrow> string option) \<Rightarrow> string \<Rightarrow> string \<Rightarrow> error + destination" where
  "write_to_file write_error msg output_file =
     (case write_error output_file of
        None \<Rightarrow> Inr (ToFile output_file)
      | Some e \<Rightarrow> Inl (FileIOError (msg @ e)))"

fun format_data :: "(string \<Rightarrow> string option) \<Rightarrow> formatter \<Rightarrow> string \<Rightarrow> error + destination" where
  "format_data write_error TableFormatter output_file =
     (if output_file \<noteq> [] then
        Inl (FileIOError ''Table format can only be output to terminal (stdout)'')
      else Inr Stdout)"
| "format_data write_error JSONFormatter output_file =
     (if output_file \<noteq> [] then
        write_to_file write_error ''Failed to write JSON file: '' output_file
      else Inr Stdout)"
| "format_data write_error CSVFormatter output_file =
     (if output_file \<noteq> [] then
        write_to_file write_error ''Failed to write CSV file: '' output_file
      else Inr Stdout)"
| "format_data write_error ParquetFormatter output_file =
     (if output_file = [] then
        Inl (FileIOError
               ''Parquet format requires an output file. Use --output to specify a file path.'')
      else write_to_file write_error ''Failed to write Parquet file: '' output_file)"

text \<open>
  \<^verbatim>\<open>
  def output_data(data, format_type="table", output_file=""):
      formatter = get_formatter(format_type)
      formatter.format(data, output_file)
  \<close>
\<close>

definition output_data :: "(string \<Rightarrow> string option) \<Rightarrow> string \<Rightarrow> string \<Rightarrow> error + destination" where
  "output_data write_error format_type output_file =
     ebind (get_formatter format_type) (\<lambda>formatter. format_data write_error formatter output_file)"

section \<open>Vocabulary of the specification\<close>

text \<open>
  The text of a reference \<open>${NAME}\<close> or \<open>${NAME:DEFAULT}\<close>, and the condition the
  specification puts on its two parts: NAME has no \<open>}\<close> and no \<open>:\<close>, DEFAULT has no \<open>}\<close>.
\<close>

definition reference_text :: "string \<Rightarrow> string option \<Rightarrow> string" where
  "reference_text n d = ''${'' @ n @ (case d of None \<Rightarrow> [] | Some x \<Rightarrow> CHR '':'' # x) @ ''}''"

definition reference_parts :: "string \<Rightarrow> string option \<Rightarrow> bool" where
  "reference_parts n d \<longleftrightarrow>
     list_all name_char n \<and> (case d of None \<Rightarrow> True | Some x \<Rightarrow> list_all default_char x)"

text \<open>
  A word written in any letter case: \<open>case_variant w s\<close> holds when \<open>s\<close> is \<open>w\<close> with some
  of its letters \<open>a\<close> to \<open>z\<close> in upper case. \<open>plain_word w\<close>: \<open>w\<close> consists of the letters
  \<open>a\<close> to \<open>z\<close> and the digits.
\<close>

definition ascii_upper :: "char \<Rightarrow> char" where
  "ascii_upper c =
     (let n = (of_char c :: nat) in if 97 \<le> n \<and> n \<le> 122 then char_of (n - 32) else c)"

definition case_variant :: "string \<Rightarrow> string \<Rightarrow> bool" where
  "case_variant w s \<longleftrightarrow> list_all2 (\<lambda>a c. c = a \<or> c = ascii_upper a) w s"

definition plain_char :: "char \<Rightarrow> bool" where
  "plain_char c \<longleftrightarrow>
     (let n = (of_char c :: nat) in (97 \<le> n \<and> n \<le> 122) \<or> (48 \<le> n \<and> n \<le> 57))"

text \<open>
  A valid configuration: each validator of the schema accepts the value it guards and
  returns it as it is.
\<close>

definition valid_config :: "string list \<Rightarrow> Config \<Rightarrow> bool" where
  "valid_config valid_regions c \<longleftrightarrow>
     validate_api_key (api_key (auth c)) = Inr (api_key (auth c))
     \<and> validate_region valid_regions (region (routing c)) = Inr (region (routing c))
     \<and> validate_mutually_exclusive (routing c) = Inr (routing c)
     \<and> format (output_config c) \<in> set output_formats"

text \<open>
  A configuration in which every field holding the empty string has been given its
  schema default.
\<close>

definition or_default :: "string \<Rightarrow> string \<Rightarrow> string" where
  "or_default dflt v = (if v = [] then dflt else v)"

definition or_default_int :: "int_or_str \<Rightarrow> int_or_str \<Rightarrow> int_or_str" where
  "or_default_int dflt v = (if v = IS_Str [] then dflt else v)"

definition or_default_bool :: "bool_or_str \<Rightarrow> bool_or_str \<Rightarrow> bool_or_str" where
  "or_default_bool dflt v = (if v = BS_Str [] then dflt else v)"

definition with_defaults :: "Config \<Rightarrow> Config" where
  "with_defaults c =
     \<lparr>profile = \<lparr>name = or_default (name ProfileConfig_default) (name (profile c))\<rparr>,
      auth = auth c,
      routing =
        \<lparr>region = or_default (region RoutingConfig_default) (region (routing c)),
         single_host = or_default (single_host RoutingConfig_default) (single_host (routing c)),
         single_port = or_default (single_port RoutingConfig_default) (single_port (routing c)),
         base_domain = or_default (base_domain RoutingConfig_default) (base_domain (routing c)),
         api_host = or_default (api_host RoutingConfig_default) (api_host (routing c)),
         api_scheme = or_default (api_scheme RoutingConfig_default) (api_scheme (routing c)),
         otlp_host = or_default (otlp_host RoutingConfig_default) (otlp_host (routing c)),
         otlp_scheme = or_default (otlp_scheme RoutingConfig_default) (otlp_scheme (routing c)),
         flight_host = or_default (flight_host RoutingConfig_default) (flight_host (routing c)),
         flight_port = or_default (flight_port RoutingConfig_default) (flight_port (routing c)),
         flight_scheme =
           or_default (flight_scheme RoutingConfig_default) (flight_scheme (routing c))\<rparr>,
      transport =
        \<lparr>stream_max_workers =
           or_default_int (stream_max_workers TransportConfig_default)
             (stream_max_workers (transport c)),
         stream_max_queue_bound =
           or_default_int (stream_max_queue_bound TransportConfig_default)
             (stream_max_queue_bound (transport c)),
         pyarrow_max_chunksize =
           or_default_int (pyarrow_max_chunksize TransportConfig_default)
             (pyarrow_max_chunksize (transport c)),
         max_http_payload_size_mb =
           or_default_int (max_http_payload_size_mb TransportConfig_default)
             (max_http_payload_size_mb (transport c))\<rparr>,
      security =
        \<lparr>request_verify =
           or_default_bool (request_verify SecurityConfig_default)
             (request_verify (security c))\<rparr>,
      storage =
        \<lparr>directory = or_default (directory StorageConfig_default) (directory (storage c)),
         cache_enabled = cache_enabled (storage c)\<rparr>,
      output_config =
        \<lparr>format = or_default (format OutputConfig_default) (format (output_config c))\<rparr>\<rparr>"

text \<open>The lax conversions that convert nothing: every value not of a declared type is rejected.\<close>

definition no_lax :: lax where
  "no_lax = \<lparr>lax_int_or_str = (\<lambda>v. None), lax_bool_or_str = (\<lambda>v. None), lax_bool = (\<lambda>v. None)\<rparr>"

text \<open>
  What expansion does to one entry of a configuration mapping: the key stays, a string
  is replaced by its expansion, a nested mapping by its expanded mapping, and any other
  value stays as it is.
\<close>

definition expanded_entry :: "(string \<rightharpoonup> string) \<Rightarrow> string \<times> pyval \<Rightarrow> string \<times> pyval \<Rightarrow> bool" where
  "expanded_entry environ kv kv' \<longleftrightarrow>
     fst kv' = fst kv
     \<and> (case snd kv of
          PStr x \<Rightarrow> (\<exists>y. expand_env_var environ x = Inr y \<and> snd kv' = PStr y)
        | PDict sub \<Rightarrow> (\<exists>sub'. expand_config_dict environ sub = Inr sub' \<and> snd kv' = PDict sub')
        | _ \<Rightarrow> snd kv' = snd kv)"

text \<open>
  The items \<open>_remove_empty_values\<close> keeps of a mapping, each cleaned in turn.
\<close>

definition kept_items :: "pydict \<Rightarrow> pydict" where
  "kept_items kvs =
     map (\<lambda>(k, v). (k, remove_empty_values v))
       (filter (\<lambda>(k, v). v \<noteq> PStr [] \<and> v \<noteq> PNone) kvs)"

text \<open>
  The configuration of the test \<open>test_save_updates_profile_name\<close>,
  \<open>Config(profile=ProfileConfig(name="wrong_name"), auth=AuthConfig(api_key="ak-test123"))\<close>.
\<close>

definition test_config :: Config where
  "test_config =
     \<lparr>profile = \<lparr>name = ''wrong_name''\<rparr>, auth = \<lparr>api_key = ''ak-test123''\<rparr>,
      routing = RoutingConfig_default, transport = TransportConfig_default,
      security = SecurityConfig_default, storage = StorageConfig_default,
      output_config = OutputConfig_default\<rparr>"

text \<open>
  A file system returns what was written: after a successful \<open>fs_write_toml\<close> the path
  exists and \<open>fs_read_toml\<close> gives the document that was written.
\<close>

definition reads_back :: "'fs os \<Rightarrow> bool" where
  "reads_back os \<longleftrightarrow>
     (\<forall>fs p d fs'. fs_write_toml os fs p (PDict d) = (Inr (), fs') \<longrightarrow>
        fs_exists os fs' p = Inr True \<and> fs_read_toml os fs' p = Inr d)"

section \<open>An in-memory file system\<close>

text \<open>
  One file system among those the operations above range over, small enough to be
  evaluated; it plays in the examples the part that the temporary directory of the
  fixture \<open>mock_config_dir\<close> plays in the test suite. Its state is a table: whether
  \<open>CONFIG_DIR\<close>, a directory, may be searched (when it may not, every path below it
  answers \<open>PermissionError\<close>), what \<open>config.toml\<close> and \<open>.active_profile\<close> are, and
  the entries of \<open>profiles\<close>, if that directory is there. An entry is a directory or a
  file holding a text, a TOML document, or something that cannot be read. A path
  \<open>ProfileFile f\<close> is the entry \<open>f\<close> when \<open>f\<close> is a plain file name; for any other \<open>f\<close>
  the table answers with an error.
\<close>

datatype payload = Text string | Toml pydict | Unreadable

datatype node = Dir | File payload

record store =
  searchable :: bool
  default_config_file :: "node option"
  profiles_dir :: "(string \<times> node) list option"
  active_profile_file :: "node option"

definition plain_name :: "string \<Rightarrow> bool" where
  "plain_name f \<longleftrightarrow> CHR ''/'' \<notin> set f \<and> CHR 0x00 \<notin> set f \<and> length f \<le> 255"

definition mem_node :: "store \<Rightarrow> path \<Rightarrow> error + node option" where
  "mem_node st p =
     (case p of
        CONFIG_DIR \<Rightarrow> Inr (Some Dir)
      | _ \<Rightarrow>
          if \<not> searchable st then Inl PermissionError
          else
            (case p of
               PROFILES_DIR \<Rightarrow> Inr (if profiles_dir st = None then None else Some Dir)
             | DEFAULT_CONFIG_FILE \<Rightarrow> Inr (default_config_file st)
             | ACTIVE_PROFILE_FILE \<Rightarrow> Inr (active_profile_file st)
             | ProfileFile f \<Rightarrow>
                 if plain_name f then
                   Inr (case profiles_dir st of None \<Rightarrow> None | Some es \<Rightarrow> map_of es f)
                 else Inl OSError))"

definition mem_put :: "store \<Rightarrow> path \<Rightarrow> node option \<Rightarrow> store" where
  "mem_put st p n =
     (case p of
        DEFAULT_CONFIG_FILE \<Rightarrow> st\<lparr>default_config_file := n\<rparr>
      | ACTIVE_PROFILE_FILE \<Rightarrow> st\<lparr>active_profile_file := n\<rparr>
      | ProfileFile f \<Rightarrow>
          st\<lparr>profiles_dir :=
               map_option
                 (\<lambda>es. (case n of None \<Rightarrow> [] | Some x \<Rightarrow> [(f, x)]) @ filter (\<lambda>e. fst e \<noteq> f) es)
                 (profiles_dir st)\<rparr>
      | _ \<Rightarrow> st)"

definition mem_exists :: "store \<Rightarrow> path \<Rightarrow> error + bool" where
  "mem_exists st p = ebind (mem_node st p) (\<lambda>n. Inr (n \<noteq> None))"

definition mem_is_dir :: "store \<Rightarrow> path \<Rightarrow> error + bool" where
  "mem_is_dir st p = ebind (mem_node st p) (\<lambda>n. Inr (n = Some Dir))"

definition mem_scandir :: "store \<Rightarrow> path \<Rightarrow> error + string list" where
  "mem_scandir st p =
     ebind (mem_node st p) (\<lambda>n.
       case (p, profiles_dir st) of
         (PROFILES_DIR, Some es) \<Rightarrow> Inr (map fst es)
       | _ \<Rightarrow> Inl OSError)"

definition mem_read_text :: "store \<Rightarrow> path \<Rightarrow> error + string" where
  "mem_read_text st p =
     ebind (mem_node st p) (\<lambda>n. case n of Some (File (Text t)) \<Rightarrow> Inr t | _ \<Rightarrow> Inl OSError)"

definition mem_read_toml :: "store \<Rightarrow> path \<Rightarrow> error + pydict" where
  "mem_read_toml st p =
     ebind (mem_node st p) (\<lambda>n. case n of Some (File (Toml d)) \<Rightarrow> Inr d | _ \<Rightarrow> Inl OSError)"

definition mem_unlink :: "store \<Rightarrow> path \<Rightarrow> (error + unit) \<times> store" where
  "mem_unlink st p =
     (case mem_node st p of
        Inl e \<Rightarrow> (Inl e, st)
      | Inr (Some (File c)) \<Rightarrow> (Inr (), mem_put st p None)
      | Inr _ \<Rightarrow> (Inl OSError, st))"

definition mem_mkdir :: "store \<Rightarrow> path \<Rightarrow> (error + unit) \<times> store" where
  "mem_mkdir st p =
     (case mem_node st p of
        Inl e \<Rightarrow> (Inl e, st)
      | Inr (Some Dir) \<Rightarrow> (Inr (), st)
      | Inr (Some (File c)) \<Rightarrow> (Inl OSError, st)
      | Inr None \<Rightarrow>
          (case p of
             PROFILES_DIR \<Rightarrow> (Inr (), st\<lparr>profiles_dir := Some []\<rparr>)
           | _ \<Rightarrow> (Inl OSError, st)))"

definition mem_write_toml :: "store \<Rightarrow> path \<Rightarrow> pyval \<Rightarrow> (error + unit) \<times> store" where
  "mem_write_toml st p data =
     (case mem_node st p of
        Inl e \<Rightarrow> (Inl e, st)
      | Inr (Some Dir) \<Rightarrow> (Inl OSError, st)
      | Inr _ \<Rightarrow>
          (case (p, data) of
             (DEFAULT_CONFIG_FILE, PDict d) \<Rightarrow> (Inr (), mem_put st p (Some (File (Toml d))))
           | (ProfileFile f, PDict d) \<Rightarrow>
               if profiles_dir st = None then (Inl OSError, st)
               else (Inr (), mem_put st p (Some (File (Toml d))))
           | _ \<Rightarrow> (Inl OSError, st)))"

definition mem_os :: "store os" where
  "mem_os =
     \<lparr>fs_exists = mem_exists, fs_is_dir = mem_is_dir, fs_scandir = mem_scandir,
      fs_read_text = mem_read_text, fs_unlink = mem_unlink, fs_mkdir = mem_mkdir,
      fs_write_toml = mem_write_toml, fs_read_toml = mem_read_toml\<rparr>"

text \<open>A table in which nothing has been written yet.\<close>

definition fresh_store :: store where
  "fresh_store =
     \<lparr>searchable = True, default_config_file = None, profiles_dir = None,
      active_profile_file = None\<rparr>"

section \<open>Properties of the string operations\<close>

lemma all_dropWhile_iff: "(\<forall>x \<in> set (dropWhile P s). P x) \<longleftrightarrow> (\<forall>x \<in> set s. P x)"
proof
  assume a: "\<forall>x \<in> set (dropWhile P s). P x"
  have "dropWhile P s = []"
  proof (rule ccontr)
    assume n: "dropWhile P s \<noteq> []"
    then have "\<not> P (hd (dropWhile P s))" by (rule hd_dropWhile)
    moreover have "hd (dropWhile P s) \<in> set (dropWhile P s)" using n by simp
    ultimately show False using a by blast
  qed
  then show "\<forall>x \<in> set s. P x" by (simp add: dropWhile_eq_Nil_conv)
next
  assume "\<forall>x \<in> set s. P x"
  then show "\<forall>x \<in> set (dropWhile P s). P x" by (auto dest: set_dropWhileD)
qed

lemma py_strip_Nil_iff: "py_strip s = [] \<longleftrightarrow> (\<forall>c \<in> set s. py_isspace c)"
  by (simp add: py_strip_def dropWhile_eq_Nil_conv all_dropWhile_iff)

lemma py_strip_ends:
  assumes "py_strip s \<noteq> []"
  shows "\<not> py_isspace (hd (py_strip s))" and "\<not> py_isspace (last (py_strip s))"
proof -
  let ?t = "dropWhile py_isspace s"
  let ?u = "dropWhile py_isspace (rev ?t)"
  from assms have u: "?u \<noteq> []" by (simp add: py_strip_def)
  have t: "?t \<noteq> []"
  proof
    assume e: "?t = []"
    have "?u = []" unfolding e by simp
    with u show False by blast
  qed
  have "last (py_strip s) = hd ?u" using u by (simp add: py_strip_def last_rev)
  with u show "\<not> py_isspace (last (py_strip s))" by (simp add: hd_dropWhile)
  have "hd (py_strip s) = last ?u" using u by (simp add: py_strip_def hd_rev)
  also have "\<dots> = last (rev ?t)"
    using u by (metis last_appendR takeWhile_dropWhile_id)
  also have "\<dots> = hd ?t" using t by (simp add: last_rev)
  finally show "\<not> py_isspace (hd (py_strip s))" using t by (simp add: hd_dropWhile)
qed

lemma py_strip_id:
  assumes "s = [] \<or> (\<not> py_isspace (hd s) \<and> \<not> py_isspace (last s))"
  shows "py_strip s = s"
proof (cases s)
  case Nil
  then show ?thesis by (simp add: py_strip_def)
next
  case (Cons a list)
  with assms have h: "\<not> py_isspace (hd s)" and l: "\<not> py_isspace (last s)" by auto
  from Cons h have 1: "dropWhile py_isspace s = s" by simp
  have "hd (rev s) = last s" using Cons by (simp add: hd_rev)
  with l have 2: "dropWhile py_isspace (rev s) = rev s"
    by (simp only: dropWhile_eq_self_iff) simp
  show ?thesis by (simp add: py_strip_def 1 2)
qed

lemma py_strip_idem: "py_strip (py_strip s) = py_strip s"
  using py_strip_ends [of s] py_strip_id [of "py_strip s"] by blast

lemma py_strip_no_space: "\<forall>c \<in> set s. \<not> py_isspace c \<Longrightarrow> py_strip s = s"
  by (rule py_strip_id) (cases s, auto)

section \<open>The api key of a validated configuration\<close>

lemma ebind_Inr_iff: "ebind m f = Inr y \<longleftrightarrow> (\<exists>x. m = Inr x \<and> f x = Inr y)"
  by (cases m) (simp_all add: ebind_def)

lemma as_validation_error_Inr_iff: "as_validation_error m = Inr y \<longleftrightarrow> m = Inr y"
  by (cases m) (simp_all add: as_validation_error_def)

lemma validate_api_key_Inr:
  assumes "validate_api_key v = Inr k"
  shows "k = py_strip v" and "k \<noteq> []" and "\<not> py_isspace (hd k)" and "\<not> py_isspace (last k)"
  using assms py_strip_ends [of v] by (auto simp: validate_api_key_def split: if_splits)

lemma validate_api_key_blank:
  "\<forall>c \<in> set v. py_isspace c \<Longrightarrow>
     validate_api_key v = Inl (ValueError ''api_key cannot be empty'')"
  by (simp add: validate_api_key_def py_strip_Nil_iff)

lemma validate_api_key_ok:
  "\<not> (\<forall>c \<in> set v. py_isspace c) \<Longrightarrow> validate_api_key v = Inr (py_strip v)"
  by (auto simp: validate_api_key_def py_strip_Nil_iff)

lemma AuthConfig_validate_Inr:
  assumes "AuthConfig_validate d = Inr a"
  shows "\<exists>v. map_of d ''api_key'' = Some (PStr v) \<and> validate_api_key v = Inr (api_key a)"
  using assms
  by (auto simp: AuthConfig_validate_def ebind_Inr_iff as_validation_error_Inr_iff
           split: option.splits pyval.splits)

lemma Config_validate_auth:
  assumes "Config_validate lx valid_regions d = Inr c"
  shows "\<exists>sd. map_of d ''auth'' = Some (PDict sd) \<and> AuthConfig_validate sd = Inr (auth c)"
proof -
  from assms obtain s2 where "sub_model d ''auth'' None AuthConfig_validate = Inr s2"
    and "auth c = s2"
    by (auto simp: Config_validate_def ebind_Inr_iff split: if_splits)
  then show ?thesis
    by (auto simp: sub_model_def split: option.splits pyval.splits)
qed

text \<open>
  Claim C10. Every configuration that validation produces has an api key without
  leading or trailing whitespace. The field validator rejects the empty key and the key
  of whitespace only with "api_key cannot be empty"; it accepts every other input and
  stores it stripped of surrounding whitespace, so what it returns is not empty and
  neither begins nor ends with a whitespace character. The same holds for the api key
  of every \<open>Config\<close> built from a mapping, for any lax conversions and any list of
  regions.
\<close>

theorem api_key_stripped:
  "(validate_api_key v = Inr k \<longrightarrow>
      k = py_strip v \<and> k \<noteq> [] \<and> \<not> py_isspace (hd k) \<and> \<not> py_isspace (last k))
   \<and> ((\<forall>c \<in> set v. py_isspace c) \<longrightarrow>
        validate_api_key v = Inl (ValueError ''api_key cannot be empty''))
   \<and> (\<not> (\<forall>c \<in> set v. py_isspace c) \<longrightarrow> validate_api_key v = Inr (py_strip v))
   \<and> (Config_validate lx valid_regions d = Inr cfg \<longrightarrow>
        api_key (auth cfg) \<noteq> [] \<and> \<not> py_isspace (hd (api_key (auth cfg)))
        \<and> \<not> py_isspace (last (api_key (auth cfg))))"
proof (intro conjI impI)
  assume "Config_validate lx valid_regions d = Inr cfg"
  then obtain v where v: "validate_api_key v = Inr (api_key (auth cfg))"
    using Config_validate_auth AuthConfig_validate_Inr by blast
  show "api_key (auth cfg) \<noteq> []" using validate_api_key_Inr(2) [OF v] .
  show "\<not> py_isspace (hd (api_key (auth cfg)))" using validate_api_key_Inr(3) [OF v] .
  show "\<not> py_isspace (last (api_key (auth cfg)))" using validate_api_key_Inr(4) [OF v] .
next
  assume a: "validate_api_key v = Inr k"
  show "k = py_strip v" using validate_api_key_Inr(1) [OF a] .
  show "k \<noteq> []" using validate_api_key_Inr(2) [OF a] .
  show "\<not> py_isspace (hd k)" using validate_api_key_Inr(3) [OF a] .
  show "\<not> py_isspace (last k)" using validate_api_key_Inr(4) [OF a] .
next
  assume "\<forall>c \<in> set v. py_isspace c"
  then show "validate_api_key v = Inl (ValueError ''api_key cannot be empty'')"
    by (rule validate_api_key_blank)
next
  assume "\<not> (\<forall>c \<in> set v. py_isspace c)"
  then show "validate_api_key v = Inr (py_strip v)" by (rule validate_api_key_ok)
qed

text \<open>
  The key of the test suite, with blanks around it, is accepted and stored stripped; the
  key of three blanks is rejected.
\<close>

theorem api_key_stripped_witness:
  "validate_api_key ''  ak-test123  '' = Inr ''ak-test123''
   \<and> validate_api_key ''   '' = Inl (ValueError ''api_key cannot be empty'')
   \<and> (\<exists>cfg. Config_validate no_lax [] [(''auth'', PDict [(''api_key'', PStr ''  ak-test123  '')])] = Inr cfg
        \<and> api_key (auth cfg) = ''ak-test123'')"
proof -
  have a: "validate_api_key ''  ak-test123  '' = Inr ''ak-test123''"
    by (simp add: validate_api_key_def py_strip_def py_isspace_def)
  have b: "\<forall>c \<in> set ''   ''. py_isspace c" by (simp add: py_isspace_def)
  have c: "Config_validate no_lax [] [(''auth'', PDict [(''api_key'', PStr ''  ak-test123  '')])]
        = Inr \<lparr>profile = ProfileConfig_default, auth = \<lparr>api_key = ''ak-test123''\<rparr>,
               routing = RoutingConfig_default, transport = TransportConfig_default,
               security = SecurityConfig_default, storage = StorageConfig_default,
               output_config = OutputConfig_default\<rparr>"
    by (simp add: Config_validate_def Config_fields_def sub_model_def ebind_def
          AuthConfig_validate_def as_validation_error_def a)
  show ?thesis
    using api_key_stripped [of "''  ak-test123  ''" "''ak-test123''" no_lax "[]"
            "[(''auth'', PDict [(''api_key'', PStr ''  ak-test123  '')])]"
            "\<lparr>profile = ProfileConfig_default, auth = \<lparr>api_key = ''ak-test123''\<rparr>,
               routing = RoutingConfig_default, transport = TransportConfig_default,
               security = SecurityConfig_default, storage = StorageConfig_default,
               output_config = OutputConfig_default\<rparr>"]
      api_key_stripped [of "''   ''"] a b c
    by simp
qed

section \<open>Properties of the in-memory file system\<close>

lemma mem_os_simps [simp]:
  "fs_exists mem_os = mem_exists" "fs_is_dir mem_os = mem_is_dir"
  "fs_scandir mem_os = mem_scandir" "fs_read_text mem_os = mem_read_text"
  "fs_unlink mem_os = mem_unlink" "fs_mkdir mem_os = mem_mkdir"
  "fs_write_toml mem_os = mem_write_toml" "fs_read_toml mem_os = mem_read_toml"
  by (simp_all add: mem_os_def)

text \<open>The in-memory file system returns what was written.\<close>

lemma map_of_filter_key:
  "map_of (filter (\<lambda>e. fst e \<noteq> f) es) k = (if k = f then None else map_of es k)"
  by (simp add: map_of_filter [of "\<lambda>k. k \<noteq> f" es] restrict_map_def)

lemma mem_node_put:
  "mem_node st p = Inr n \<Longrightarrow> p \<noteq> CONFIG_DIR \<Longrightarrow> p \<noteq> PROFILES_DIR \<Longrightarrow>
   (\<forall>f. p = ProfileFile f \<longrightarrow> profiles_dir st \<noteq> None) \<Longrightarrow>
     mem_node (mem_put st p (Some x)) p = Inr (Some x)"
  by (cases p) (auto simp: mem_node_def mem_put_def split: if_splits)

lemma reads_back_mem_os: "reads_back mem_os"
  unfolding reads_back_def
proof (intro allI impI)
  fix st p d st'
  assume w: "fs_write_toml mem_os st p (PDict d) = (Inr (), st')"
  then have w': "mem_write_toml st p (PDict d) = (Inr (), st')" by simp
  then obtain n where n: "mem_node st p = Inr n"
    by (cases "mem_node st p") (simp_all add: mem_write_toml_def)
  from w' n have p: "p \<noteq> CONFIG_DIR" "p \<noteq> PROFILES_DIR" "p \<noteq> ACTIVE_PROFILE_FILE"
    by (auto simp: mem_write_toml_def split: option.splits node.splits)
  from w' n have pd: "\<forall>f. p = ProfileFile f \<longrightarrow> profiles_dir st \<noteq> None"
    by (auto simp: mem_write_toml_def split: option.splits node.splits if_splits)
  from w' n p have st': "st' = mem_put st p (Some (File (Toml d)))"
    by (cases p) (auto simp: mem_write_toml_def split: option.splits node.splits if_splits)
  from mem_node_put [OF n p(1,2) pd, of "File (Toml d)"]
  have "mem_node st' p = Inr (Some (File (Toml d)))" unfolding st' .
  then show "fs_exists mem_os st' p = Inr True \<and> fs_read_toml mem_os st' p = Inr d"
    by (simp add: mem_exists_def mem_read_toml_def ebind_def)
qed

section \<open>The active profile\<close>

lemma get_active_profile_missing:
  "fs_exists os fs ACTIVE_PROFILE_FILE = Inr False \<Longrightarrow> get_active_profile os fs = Inr ''default''"
  by (simp add: get_active_profile_def)

lemma get_active_profile_read_failure:
  "fs_exists os fs ACTIVE_PROFILE_FILE = Inr True \<Longrightarrow>
   fs_read_text os fs ACTIVE_PROFILE_FILE = Inl e \<Longrightarrow>
     get_active_profile os fs = Inr ''default''"
  by (simp add: get_active_profile_def)

lemma get_active_profile_readable:
  "fs_exists os fs ACTIVE_PROFILE_FILE = Inr True \<Longrightarrow>
   fs_read_text os fs ACTIVE_PROFILE_FILE = Inr t \<Longrightarrow>
     get_active_profile os fs = Inr (py_strip t)"
  by (simp add: get_active_profile_def)

text \<open>
  Claim C4. The claim has \<open>get_active_profile\<close> return "default" in every state of the
  marker file and never raise. The code guards \<open>read_text()\<close> only: when the marker is
  missing, and when it is there and reading it fails (a directory, a file that may not
  be read), the result is "default", as the lemmas above state. The test
  \<open>ACTIVE_PROFILE_FILE.exists()\<close> stands before the \<open>try\<close>: \<open>get_active_profile\<close>
  raises exactly what that call raises.
\<close>

theorem get_active_profile_raises:
  "get_active_profile os fs = Inl e \<longleftrightarrow> fs_exists os fs ACTIVE_PROFILE_FILE = Inl e"
  by (auto simp: get_active_profile_def split: sum.splits bool.splits)

text \<open>
  A configuration directory that may not be searched, as after \<open>chmod 000 ~/.arize\<close>:
  \<open>exists()\<close> raises \<open>PermissionError\<close> for the marker in it, and so does
  \<open>get_active_profile\<close>.
\<close>

theorem get_active_profile_raises_witness:
  "fs_exists mem_os
     \<lparr>searchable = False, default_config_file = None, profiles_dir = None,
      active_profile_file = Some (File (Text ''prod''))\<rparr> ACTIVE_PROFILE_FILE
     = Inl PermissionError
   \<and> get_active_profile mem_os
       \<lparr>searchable = False, default_config_file = None, profiles_dir = None,
        active_profile_file = Some (File (Text ''prod''))\<rparr> = Inl PermissionError"
proof -
  have "fs_exists mem_os
     \<lparr>searchable = False, default_config_file = None, profiles_dir = None,
      active_profile_file = Some (File (Text ''prod''))\<rparr> ACTIVE_PROFILE_FILE
     = Inl PermissionError"
    by (simp add: mem_exists_def mem_node_def ebind_def)
  from this get_active_profile_raises [THEN iffD2, OF this] show ?thesis by (rule conjI)
qed

text \<open>
  Claim C9. When the marker file exists and can be read, \<open>get_active_profile\<close> returns
  its contents trimmed of surrounding whitespace. Nothing else is asked of the file
  system: on any file system that gives the same two answers for the marker the result
  is the same, whatever it answers for the profile files, so no check that the named
  profile exists takes place. A marker that is empty or holds whitespace only gives the
  empty string, not "default".
\<close>

theorem get_active_profile_trimmed_marker:
  "fs_exists os fs ACTIVE_PROFILE_FILE = Inr True \<Longrightarrow>
   fs_read_text os fs ACTIVE_PROFILE_FILE = Inr t \<Longrightarrow>
     get_active_profile os fs = Inr (py_strip t)
     \<and> (fs_exists os' fs' ACTIVE_PROFILE_FILE = Inr True
          \<and> fs_read_text os' fs' ACTIVE_PROFILE_FILE = Inr t \<longrightarrow>
          get_active_profile os' fs' = Inr (py_strip t))
     \<and> ((\<forall>c \<in> set t. py_isspace c) \<longrightarrow>
          get_active_profile os fs = Inr [] \<and> get_active_profile os fs \<noteq> Inr ''default'')"
  using py_strip_Nil_iff [of t] by (auto simp: get_active_profile_def)

text \<open>
  A marker naming a profile that does not exist, before and after other profiles are
  written beside it, and a marker of blanks and a newline.
\<close>

theorem get_active_profile_trimmed_marker_witness:
  "get_active_profile mem_os
     \<lparr>searchable = True, default_config_file = None, profiles_dir = Some [],
      active_profile_file = Some (File (Text ('' ghost'' @ [CHR 0x0A])))\<rparr> = Inr ''ghost''
   \<and> exists_profile mem_os
       \<lparr>searchable = True, default_config_file = None, profiles_dir = Some [],
        active_profile_file = Some (File (Text ('' ghost'' @ [CHR 0x0A])))\<rparr> ''ghost''
       = Inr False
   \<and> get_active_profile mem_os
       \<lparr>searchable = True, default_config_file = Some (File (Toml [])),
        profiles_dir = Some [(''dev.toml'', File (Toml []))],
        active_profile_file = Some (File (Text ('' ghost'' @ [CHR 0x0A])))\<rparr> = Inr ''ghost''
   \<and> get_active_profile mem_os
       \<lparr>searchable = True, default_config_file = None, profiles_dir = Some [],
        active_profile_file = Some (File (Text (''  '' @ [CHR 0x0A])))\<rparr> = Inr []"
proof -
  let ?g = "\<lparr>searchable = True, default_config_file = None, profiles_dir = Some [],
      active_profile_file = Some (File (Text ('' ghost'' @ [CHR 0x0A])))\<rparr>"
  let ?h = "\<lparr>searchable = True, default_config_file = Some (File (Toml [])),
        profiles_dir = Some [(''dev.toml'', File (Toml []))],
        active_profile_file = Some (File (Text ('' ghost'' @ [CHR 0x0A])))\<rparr>"
  let ?b = "\<lparr>searchable = True, default_config_file = None, profiles_dir = Some [],
        active_profile_file = Some (File (Text (''  '' @ [CHR 0x0A])))\<rparr>"
  have a: "py_strip ('' ghost'' @ [CHR 0x0A]) = ''ghost''"
    by (simp add: py_strip_def py_isspace_def)
  have b: "\<forall>c \<in> set (''  '' @ [CHR 0x0A]). py_isspace c" by (simp add: py_isspace_def)
  have c: "exists_profile mem_os ?g ''ghost'' = Inr False"
    by (simp add: exists_profile_def mem_exists_def mem_node_def get_config_path_def
          plain_name_def ebind_def)
  have e: "fs_exists mem_os ?g ACTIVE_PROFILE_FILE = Inr True"
    "fs_exists mem_os ?h ACTIVE_PROFILE_FILE = Inr True"
    "fs_exists mem_os ?b ACTIVE_PROFILE_FILE = Inr True"
    by (simp_all add: mem_exists_def mem_node_def ebind_def)
  have r: "fs_read_text mem_os ?g ACTIVE_PROFILE_FILE = Inr ('' ghost'' @ [CHR 0x0A])"
    "fs_read_text mem_os ?h ACTIVE_PROFILE_FILE = Inr ('' ghost'' @ [CHR 0x0A])"
    "fs_read_text mem_os ?b ACTIVE_PROFILE_FILE = Inr (''  '' @ [CHR 0x0A])"
    by (simp_all add: mem_read_text_def mem_node_def ebind_def)
  from get_active_profile_trimmed_marker [OF e(1) r(1), of mem_os ?h] e(2) r(2)
  have 1: "get_active_profile mem_os ?g = Inr ''ghost''"
    and 2: "get_active_profile mem_os ?h = Inr ''ghost''"
    unfolding a by blast+
  from get_active_profile_trimmed_marker [OF e(3) r(3), of mem_os ?b] b
  have 3: "get_active_profile mem_os ?b = Inr []" by blast
  from 1 c 2 3 show ?thesis by blast
qed

section \<open>Deleting a profile\<close>

lemma endswith_iff: "endswith f x \<longleftrightarrow> (\<exists>p. f = p @ x)"
proof
  assume "endswith f x"
  then have "f = take (length f - length x) f @ x"
    by (metis append_take_drop_id endswith_def)
  then show "\<exists>p. f = p @ x" ..
next
  assume "\<exists>p. f = p @ x"
  then show "endswith f x" by (auto simp: endswith_def)
qed

lemma stem_toml: "stem (p @ ''.toml'') = (if p = [] then ''.toml'' else p)"
  by (simp add: stem_def rfind_def)

text \<open>
  The two guards: the name "default" and the name of the active profile are refused,
  and the file system is left as it was.
\<close>

lemma delete_profile_default:
  "delete_profile os fs ''default''
     = (Inl (ConfigError ''Cannot delete the default profile''), fs)"
  by (simp add: delete_profile_def)

lemma delete_profile_active:
  "get_active_profile os fs = Inr pname \<Longrightarrow>
     \<exists>e. delete_profile os fs pname = (Inl (ConfigError e), fs)"
  by (simp add: delete_profile_def)

text \<open>
  For any other name the file is removed when \<open>exists()\<close> finds it, and nothing is done,
  without an error, when it does not. What \<open>exists()\<close> raises (for the marker or for
  the profile's file) is raised by \<open>delete_profile\<close>.
\<close>

lemma delete_profile_absent:
  "pname \<noteq> ''default'' \<Longrightarrow> get_active_profile os fs = Inr active \<Longrightarrow> pname \<noteq> active \<Longrightarrow>
   fs_exists os fs (get_config_path pname) = Inr False \<Longrightarrow>
     delete_profile os fs pname = (Inr (), fs)"
  by (simp add: delete_profile_def)

lemma delete_profile_present:
  "pname \<noteq> ''default'' \<Longrightarrow> get_active_profile os fs = Inr active \<Longrightarrow> pname \<noteq> active \<Longrightarrow>
   fs_exists os fs (get_config_path pname) = Inr True \<Longrightarrow>
     delete_profile os fs pname = fs_unlink os fs (get_config_path pname)"
  by (simp add: delete_profile_def)

lemma delete_profile_raises:
  "pname \<noteq> ''default'' \<Longrightarrow> get_active_profile os fs = Inl e \<Longrightarrow>
     delete_profile os fs pname = (Inl e, fs)"
  "pname \<noteq> ''default'' \<Longrightarrow> get_active_profile os fs = Inr active \<Longrightarrow> pname \<noteq> active \<Longrightarrow>
   fs_exists os fs (get_config_path pname) = Inl e \<Longrightarrow>
     delete_profile os fs pname = (Inl e, fs)"
  by (simp_all add: delete_profile_def)

text \<open>
  What \<open>list_profiles\<close> lists: "default", when \<open>config.toml\<close> exists, and for every
  entry \<open>p.toml\<close> of the profiles directory the name \<open>p\<close>, unless \<open>p\<close> is empty: the
  entry \<open>.toml\<close> is listed as \<open>.toml\<close>. So a listed name other than "default" and
  \<open>.toml\<close> is the name of a profile whose file is in the directory.
\<close>

lemma list_profiles_mem:
  assumes "list_profiles os fs = Inr ps" and "n \<in> set ps"
  shows "(n = ''default'' \<and> fs_exists os fs DEFAULT_CONFIG_FILE = Inr True)
     \<or> (\<exists>names p. fs_scandir os fs PROFILES_DIR = Inr names \<and> p @ ''.toml'' \<in> set names
               \<and> n = (if p = [] then ''.toml'' else p))"
proof -
  from assms(1) obtain has_default has_dir names where
    d: "fs_exists os fs DEFAULT_CONFIG_FILE = Inr has_default"
    and g: "(if has_dir then glob_toml os fs else Inr []) = Inr names"
    and ps: "ps = sort ((if has_default then [''default''] else []) @ map stem names)"
    by (auto simp: list_profiles_def ebind_def split: sum.splits)
  from assms(2) ps have "n \<in> set (if has_default then [''default''] else []) \<or> n \<in> stem ` set names"
    by auto
  then show ?thesis
  proof
    assume "n \<in> set (if has_default then [''default''] else [])"
    with d show ?thesis by (simp split: if_splits)
  next
    assume "n \<in> stem ` set names"
    then obtain f where f: "f \<in> set names" "n = stem f" by blast
    from f(1) g have gl: "glob_toml os fs = Inr names" by (cases has_dir) simp_all
    then obtain entries where sc: "fs_scandir os fs PROFILES_DIR = Inr entries"
      and nm: "names = filter (\<lambda>f. endswith f ''.toml'') entries"
      using f(1)
      by (auto simp: glob_toml_def split: sum.splits bool.splits error.splits)
    from f(1) nm have fe: "f \<in> set entries" and "endswith f ''.toml''" by simp_all
    then obtain p where p: "f = p @ ''.toml''" unfolding endswith_iff by blast
    have "n = (if p = [] then ''.toml'' else p)" using f(2) p stem_toml by simp
    with sc fe p show ?thesis by (intro disjI2 exI [of _ entries] exI [of _ p]) simp
  qed
qed

lemma listed_profile_has_file:
  assumes "list_profiles os fs = Inr ps" and "n \<in> set ps"
    and "n \<noteq> ''default''" and "n \<noteq> ''.toml''"
  shows "\<exists>names. fs_scandir os fs PROFILES_DIR = Inr names \<and> n @ ''.toml'' \<in> set names"
proof -
  from list_profiles_mem [OF assms(1,2)] assms(3) obtain names p where
    sc: "fs_scandir os fs PROFILES_DIR = Inr names" and p: "p @ ''.toml'' \<in> set names"
    and n: "n = (if p = [] then ''.toml'' else p)" by blast
  from n assms(4) have "p = n" by (cases "p = []") simp_all
  with sc p show ?thesis by blast
qed

text \<open>
  Claim C5. The claim has a successfully deleted profile gone from the listing. The
  guards and the removal are as the claim says (lemmas above). The listing is not the
  inverse of \<open>_get_config_path\<close>: an entry \<open>.toml\<close> of the profiles directory is listed
  under the name \<open>.toml\<close>, and the file of the profile named \<open>.toml\<close> is \<open>.toml.toml\<close>.
  Whenever the directory has the entry \<open>.toml\<close> and no \<open>.toml.toml\<close>, and the active
  profile is another one, \<open>delete_profile(".toml")\<close> succeeds without touching the
  file system and \<open>list_profiles\<close> goes on listing \<open>.toml\<close>.
\<close>

theorem delete_profile_still_listed:
  assumes "get_active_profile os fs = Inr active" and "active \<noteq> ''.toml''"
    and "fs_exists os fs (ProfileFile ''.toml.toml'') = Inr False"
    and "fs_exists os fs DEFAULT_CONFIG_FILE = Inr has_default"
    and "fs_exists os fs PROFILES_DIR = Inr True"
    and "fs_is_dir os fs PROFILES_DIR = Inr True"
    and "fs_scandir os fs PROFILES_DIR = Inr names"
    and "''.toml'' \<in> set names"
  shows "delete_profile os fs ''.toml'' = (Inr (), fs)
     \<and> (\<exists>ps. list_profiles os fs = Inr ps \<and> ''.toml'' \<in> set ps)"
proof -
  have gp: "get_config_path ''.toml'' = ProfileFile ''.toml.toml''"
    by (simp add: get_config_path_def)
  have del: "delete_profile os fs ''.toml'' = (Inr (), fs)"
    unfolding delete_profile_def gp using assms(1) assms(2) [symmetric] assms(3) by simp
  have st: "stem ''.toml'' = ''.toml''" by (simp add: stem_def rfind_def)
  have ew: "endswith ''.toml'' ''.toml''" by (simp add: endswith_def)
  let ?names = "filter (\<lambda>f. endswith f ''.toml'') names"
  have gl: "glob_toml os fs = Inr ?names"
    using assms(6,7) by (simp add: glob_toml_def)
  have lp: "list_profiles os fs
              = Inr (sort ((if has_default then [''default''] else []) @ map stem ?names))"
    unfolding list_profiles_def assms(4) assms(5) gl by (simp add: ebind_def)
  have "''.toml'' \<in> set ?names" using assms(8) ew by simp
  then have "stem ''.toml'' \<in> stem ` set ?names" by (rule imageI)
  then have "''.toml'' \<in> stem ` set ?names" unfolding st .
  then have "''.toml'' \<in> set (sort ((if has_default then [''default''] else [])
                                       @ map stem ?names))"
    by simp
  with lp have "\<exists>ps. list_profiles os fs = Inr ps \<and> ''.toml'' \<in> set ps"
    by (intro exI conjI)
  with del show ?thesis by (rule conjI)
qed

text \<open>
  A profiles directory holding \<open>.toml\<close>, as \<open>save(config, "")\<close> leaves it, and no marker:
  deleting the profile \<open>.toml\<close> succeeds, changes nothing, and the listing is \<open>.toml\<close>
  before and after.
\<close>

theorem delete_profile_still_listed_witness:
  "delete_profile mem_os
     \<lparr>searchable = True, default_config_file = None,
      profiles_dir = Some [(''.toml'', File (Toml []))], active_profile_file = None\<rparr> ''.toml''
   = (Inr (),
      \<lparr>searchable = True, default_config_file = None,
       profiles_dir = Some [(''.toml'', File (Toml []))], active_profile_file = None\<rparr>)
   \<and> list_profiles mem_os
       \<lparr>searchable = True, default_config_file = None,
        profiles_dir = Some [(''.toml'', File (Toml []))], active_profile_file = None\<rparr>
     = Inr [''.toml'']"
proof -
  let ?st = "\<lparr>searchable = True, default_config_file = None,
      profiles_dir = Some [(''.toml'', File (Toml []))], active_profile_file = None\<rparr>"
  have a: "get_active_profile mem_os ?st = Inr ''default''"
    by (simp add: get_active_profile_def mem_exists_def mem_node_def ebind_def)
  have n: "''default'' \<noteq> ''.toml''" by simp
  have e: "fs_exists mem_os ?st (ProfileFile ''.toml.toml'') = Inr False"
    "fs_exists mem_os ?st DEFAULT_CONFIG_FILE = Inr False"
    "fs_exists mem_os ?st PROFILES_DIR = Inr True"
    by (simp_all add: mem_exists_def mem_node_def ebind_def plain_name_def)
  have d: "fs_is_dir mem_os ?st PROFILES_DIR = Inr True"
    by (simp add: mem_is_dir_def mem_node_def ebind_def)
  have s: "fs_scandir mem_os ?st PROFILES_DIR = Inr [''.toml'']"
    by (simp add: mem_scandir_def mem_node_def ebind_def)
  have m: "''.toml'' \<in> set [''.toml'']" by simp
  have l: "list_profiles mem_os ?st = Inr [''.toml'']"
    using e d s
    by (simp add: list_profiles_def glob_toml_def ebind_def endswith_def stem_def rfind_def)
  from delete_profile_still_listed [OF a n e d s m] l show ?thesis by blast
qed

section \<open>Boolean coercion\<close>

lemma of_char_py_lower_char:
  "(of_char (py_lower_char c) :: nat) =
     (if (65 \<le> (of_char c :: nat) \<and> (of_char c :: nat) \<le> 90)
         \<or> (192 \<le> (of_char c :: nat) \<and> (of_char c :: nat) \<le> 222 \<and> (of_char c :: nat) \<noteq> 215)
      then of_char c + 32 else of_char c)"
  by (auto simp: py_lower_char_def Let_def)

lemma of_char_ascii_upper:
  "(of_char (ascii_upper c) :: nat) =
     (if 97 \<le> (of_char c :: nat) \<and> (of_char c :: nat) \<le> 122 then of_char c - 32 else of_char c)"
  by (auto simp: ascii_upper_def Let_def)

lemma py_lower_char_plain_iff:
  assumes "plain_char a"
  shows "py_lower_char c = a \<longleftrightarrow> c = a \<or> c = ascii_upper a"
proof -
  have e: "\<And>x y :: char. x = y \<longleftrightarrow> (of_char x :: nat) = of_char y" by simp
  from assms show ?thesis
    unfolding e [of "py_lower_char c"] e [of c] of_char_py_lower_char of_char_ascii_upper
      plain_char_def Let_def
    by (auto split: if_splits)
qed

lemma of_char_py_isspace:
  "py_isspace c \<longleftrightarrow> (of_char c :: nat) \<in> {9, 10, 11, 12, 13, 28, 29, 30, 31, 32, 133, 160}"
proof -
  have e: "\<And>x y :: char. x = y \<longleftrightarrow> (of_char x :: nat) = of_char y" by simp
  show ?thesis unfolding py_isspace_def insert_iff empty_iff e [of c] by simp
qed

lemma plain_variant_not_space:
  assumes "plain_char a" and "c = a \<or> c = ascii_upper a"
  shows "\<not> py_isspace c"
  using assms unfolding of_char_py_isspace plain_char_def Let_def
  by (auto simp: of_char_ascii_upper split: if_splits)

lemma py_lower_plain_iff:
  assumes "list_all plain_char w"
  shows "py_lower s = w \<longleftrightarrow> case_variant w s"
  using assms
proof (induction w arbitrary: s)
  case Nil
  then show ?case by (simp add: py_lower_def case_variant_def)
next
  case (Cons a w)
  then have a: "plain_char a" and w: "list_all plain_char w" by simp_all
  show ?case
  proof (cases s)
    case Nil
    then show ?thesis by (simp add: py_lower_def case_variant_def)
  next
    case (Cons c s')
    have "py_lower s' = w \<longleftrightarrow> case_variant w s'" using Cons.IH [OF w] .
    then show ?thesis
      using py_lower_char_plain_iff [OF a, of c] Cons
      by (simp add: py_lower_def case_variant_def)
  qed
qed

lemma case_variant_no_space:
  assumes "list_all plain_char w" and "case_variant w s"
  shows "\<forall>c \<in> set s. \<not> py_isspace c"
  using assms
proof (induction w arbitrary: s)
  case Nil
  then show ?case by (simp add: case_variant_def)
next
  case (Cons a w)
  from Cons.prems(2) obtain c s' where s: "s = c # s'" and c: "c = a \<or> c = ascii_upper a"
    and v: "case_variant w s'"
    by (auto simp: case_variant_def list_all2_Cons1)
  from Cons.prems(1) have a: "plain_char a" and w: "list_all plain_char w" by simp_all
  show ?case using plain_variant_not_space [OF a c] Cons.IH [OF w v] s by simp
qed

lemma plain_words:
  "list_all plain_char ''true''" "list_all plain_char ''1''" "list_all plain_char ''yes''"
  "list_all plain_char ''on''" "list_all plain_char ''false''" "list_all plain_char ''0''"
  "list_all plain_char ''no''" "list_all plain_char ''off''"
  by (simp_all add: plain_char_def)

lemma to_bool_str_iff:
  "to_bool (BS_Str s) \<longleftrightarrow>
     (\<exists>w \<in> {''true'', ''1'', ''yes'', ''on''}. case_variant w (py_strip s))"
  using py_lower_plain_iff [OF plain_words(1), of "py_strip s"]
        py_lower_plain_iff [OF plain_words(2), of "py_strip s"]
        py_lower_plain_iff [OF plain_words(3), of "py_strip s"]
        py_lower_plain_iff [OF plain_words(4), of "py_strip s"]
  by auto

lemma to_bool_variant:
  assumes "list_all plain_char w" and "case_variant w s"
  shows "to_bool (BS_Str s) \<longleftrightarrow> w \<in> {''1'', ''true'', ''yes'', ''on''}"
proof -
  have "py_strip s = s" using case_variant_no_space [OF assms] by (rule py_strip_no_space)
  moreover have "py_lower s = w" using py_lower_plain_iff [OF assms(1)] assms(2) by simp
  ultimately show ?thesis by simp
qed

text \<open>
  Claim C8, as amended. A boolean input is returned unchanged. The words "true", "1",
  "yes" and "on" in any letter case are coerced to true, the words "false", "0", "no"
  and "off" in any letter case to false. In general a string is coerced to true exactly
  when, trimmed of surrounding whitespace, it is one of "true", "1", "yes", "on" in some
  letter case; every other string is coerced to false.
\<close>

theorem to_bool_coercion:
  "to_bool (BS_Bool b) = b
   \<and> (\<forall>w \<in> {''true'', ''1'', ''yes'', ''on''}. case_variant w s \<longrightarrow> to_bool (BS_Str s))
   \<and> (\<forall>w \<in> {''false'', ''0'', ''no'', ''off''}. case_variant w s \<longrightarrow> \<not> to_bool (BS_Str s))
   \<and> (to_bool (BS_Str s) \<longleftrightarrow>
        (\<exists>w \<in> {''true'', ''1'', ''yes'', ''on''}. case_variant w (py_strip s)))"
proof (intro conjI ballI impI)
  show "to_bool (BS_Bool b) = b" by simp
next
  fix w assume "w \<in> {''true'', ''1'', ''yes'', ''on''}" and v: "case_variant w s"
  then have "list_all plain_char w" and "w \<in> {''1'', ''true'', ''yes'', ''on''}"
    using plain_words by auto
  then show "to_bool (BS_Str s)" using to_bool_variant [OF _ v] by blast
next
  fix w assume "w \<in> {''false'', ''0'', ''no'', ''off''}" and v: "case_variant w s"
  then have "list_all plain_char w" and "w \<notin> {''1'', ''true'', ''yes'', ''on''}"
    using plain_words by auto
  then show "\<not> to_bool (BS_Str s)" using to_bool_variant [OF _ v] by blast
next
  show "to_bool (BS_Str s) \<longleftrightarrow>
        (\<exists>w \<in> {''true'', ''1'', ''yes'', ''on''}. case_variant w (py_strip s))"
    by (rule to_bool_str_iff)
qed

text \<open>\<open>TrUe\<close> is coerced to true, \<open>OFF\<close> and \<open>maybe\<close> to false.\<close>

theorem to_bool_coercion_witness:
  "case_variant ''true'' ''TrUe'' \<and> to_bool (BS_Str ''TrUe'')
   \<and> case_variant ''off'' ''OFF'' \<and> \<not> to_bool (BS_Str ''OFF'')
   \<and> \<not> to_bool (BS_Str ''maybe'')"
proof -
  have a: "case_variant ''true'' ''TrUe''" "case_variant ''off'' ''OFF''"
    by code_simp+
  have b: "py_strip ''maybe'' = ''maybe''" by (simp add: py_strip_def py_isspace_def)
  have c: "\<not> case_variant ''true'' ''maybe''" "\<not> case_variant ''1'' ''maybe''"
    "\<not> case_variant ''yes'' ''maybe''" "\<not> case_variant ''on'' ''maybe''"
    by code_simp+
  from to_bool_coercion [of True "''TrUe''"] to_bool_coercion [of True "''OFF''"]
       to_bool_coercion [of True "''maybe''"] a b c
  show ?thesis by simp
qed

text \<open>
  The claim as stated sends every string other than the four words, in whatever letter
  case, to false. The string \<open>yes\<close> with a blank in front is none of the four words in
  any letter case, and it is coerced to true.
\<close>

theorem to_bool_blank_counterexample:
  "to_bool (BS_Str '' yes'')
   \<and> \<not> case_variant ''true'' '' yes'' \<and> \<not> case_variant ''1'' '' yes''
   \<and> \<not> case_variant ''yes'' '' yes'' \<and> \<not> case_variant ''on'' '' yes''"
  by code_simp

section \<open>Mutually exclusive routing options\<close>

lemma validate_mutually_exclusive_Inr_same:
  "validate_mutually_exclusive r = Inr r' \<Longrightarrow> r' = r"
  by (simp add: validate_mutually_exclusive_def Let_def split: if_splits)

text \<open>
  Every routing section built from a mapping has passed the cross-field validator.
\<close>

lemma RoutingConfig_validate_exclusive:
  assumes "RoutingConfig_validate valid_regions d = Inr r"
  shows "validate_mutually_exclusive r = Inr r"
proof -
  from assms obtain r0 where "validate_mutually_exclusive r0 = Inr r"
    unfolding RoutingConfig_validate_def ebind_Inr_iff as_validation_error_Inr_iff by blast
  then show ?thesis using validate_mutually_exclusive_Inr_same by blast
qed

text \<open>
  Claim C2. For every routing section, with \<open>has_region\<close>, \<open>has_single\<close> and
  \<open>has_base_domain\<close> as the specification defines them, the cross-field validator
  fails with the error "Only one routing option allowed ..." whenever more than one of
  the three holds, whichever they are, and returns the section unchanged otherwise; a
  section in which only \<open>single_host\<close> and \<open>single_port\<close> are set passes.
\<close>

theorem validate_mutually_exclusive_rule:
  "(((region r \<noteq> [] \<and> (single_host r \<noteq> [] \<or> single_port r \<noteq> []))
      \<or> (region r \<noteq> [] \<and> base_domain r \<noteq> [])
      \<or> ((single_host r \<noteq> [] \<or> single_port r \<noteq> []) \<and> base_domain r \<noteq> [])) \<longrightarrow>
     validate_mutually_exclusive r =
       Inl (ValueError
              ''Only one routing option allowed: region, single_host/port, or base_domain''))
   \<and> (\<not> ((region r \<noteq> [] \<and> (single_host r \<noteq> [] \<or> single_port r \<noteq> []))
         \<or> (region r \<noteq> [] \<and> base_domain r \<noteq> [])
         \<or> ((single_host r \<noteq> [] \<or> single_port r \<noteq> []) \<and> base_domain r \<noteq> [])) \<longrightarrow>
        validate_mutually_exclusive r = Inr r)
   \<and> (region r = [] \<and> base_domain r = [] \<longrightarrow> validate_mutually_exclusive r = Inr r)"
  by (auto simp: validate_mutually_exclusive_def Let_def)

text \<open>
  The three sections of the test suite: a region with a single host and a region with
  a base domain fail, a single host with its port passes.
\<close>

theorem validate_mutually_exclusive_rule_witness:
  "validate_mutually_exclusive
     (RoutingConfig_default\<lparr>region := ''us-east-1b'', single_host := ''x.com''\<rparr>) =
     Inl (ValueError
            ''Only one routing option allowed: region, single_host/port, or base_domain'')
   \<and> validate_mutually_exclusive
       (RoutingConfig_default\<lparr>region := ''us-east-1b'', base_domain := ''example.com''\<rparr>) =
       Inl (ValueError
              ''Only one routing option allowed: region, single_host/port, or base_domain'')
   \<and> validate_mutually_exclusive
       (RoutingConfig_default\<lparr>single_host := ''api.example.com'', single_port := ''8443''\<rparr>) =
       Inr (RoutingConfig_default\<lparr>single_host := ''api.example.com'', single_port := ''8443''\<rparr>)"
  using validate_mutually_exclusive_rule
          [of "RoutingConfig_default\<lparr>region := ''us-east-1b'', single_host := ''x.com''\<rparr>"]
        validate_mutually_exclusive_rule
          [of "RoutingConfig_default\<lparr>region := ''us-east-1b'', base_domain := ''example.com''\<rparr>"]
        validate_mutually_exclusive_rule
          [of "RoutingConfig_default\<lparr>single_host := ''api.example.com'', single_port := ''8443''\<rparr>"]
  by (simp add: RoutingConfig_default_def)

section \<open>The output dispatcher\<close>

lemma get_formatter_cases:
  "get_formatter t =
     (if py_lower t = ''table'' then Inr TableFormatter
      else if py_lower t = ''json'' then Inr JSONFormatter
      else if py_lower t = ''csv'' then Inr CSVFormatter
      else if py_lower t = ''parquet'' then Inr ParquetFormatter
      else Inl (ValueError (''Unsupported format: '' @ t
                  @ ''. Supported formats: table, json, csv, parquet'')))"
  by (simp add: get_formatter_def formatters_def)

text \<open>
  Claim C7, as amended. \<open>output_data\<close> fails when the format is table and a destination
  file is given, whatever the file; when the format is parquet and no destination file
  is given; and when the format name, put in lower case, is none of table, json, csv
  and parquet, with a message that lists these four names. For every format name that
  in lower case is one of the four, \<open>get_formatter\<close> returns a formatter without error.
\<close>

theorem output_dispatch_errors:
  "(py_lower t = ''table'' \<and> f \<noteq> [] \<longrightarrow>
      output_data w t f =
        Inl (FileIOError ''Table format can only be output to terminal (stdout)''))
   \<and> (py_lower t = ''parquet'' \<longrightarrow>
        output_data w t [] =
          Inl (FileIOError
                 ''Parquet format requires an output file. Use --output to specify a file path.''))
   \<and> (py_lower t \<notin> {''table'', ''json'', ''csv'', ''parquet''} \<longrightarrow>
        get_formatter t =
          Inl (ValueError (''Unsupported format: '' @ t
                 @ ''. Supported formats: table, json, csv, parquet''))
        \<and> output_data w t f = 
          Inl (ValueError (''Unsupported format: '' @ t
                 @ ''. Supported formats: table, json, csv, parquet'')))
   \<and> (py_lower t \<in> {''table'', ''json'', ''csv'', ''parquet''} \<longrightarrow>
        (\<exists>fm. get_formatter t = Inr fm))"
  by (auto simp: output_data_def ebind_def get_formatter_cases)

text \<open>
  Table to a file, parquet to the terminal, and the format xml fail; json is dispatched.
\<close>

theorem output_dispatch_errors_witness:
  "output_data (\<lambda>p. None) ''table'' ''out.txt'' =
     Inl (FileIOError ''Table format can only be output to terminal (stdout)'')
   \<and> output_data (\<lambda>p. None) ''parquet'' [] =
       Inl (FileIOError
              ''Parquet format requires an output file. Use --output to specify a file path.'')
   \<and> output_data (\<lambda>p. None) ''xml'' [] =
       Inl (ValueError ''Unsupported format: xml. Supported formats: table, json, csv, parquet'')
   \<and> get_formatter ''json'' = Inr JSONFormatter"
proof -
  have l: "py_lower ''table'' = ''table''" "py_lower ''parquet'' = ''parquet''"
    "py_lower ''xml'' = ''xml''" "py_lower ''json'' = ''json''"
    by code_simp+
  have j: "get_formatter ''json'' = Inr JSONFormatter" by (simp add: get_formatter_cases l)
  from output_dispatch_errors [of "''table''" "''out.txt''" "\<lambda>p. None"]
       output_dispatch_errors [of "''parquet''" "[]" "\<lambda>p. None"]
       output_dispatch_errors [of "''xml''" "[]" "\<lambda>p. None"]
       output_dispatch_errors [of "''json''" "[]" "\<lambda>p. None"] l j
  show ?thesis by simp
qed

text \<open>
  The claim as stated has every format name outside the four fail. \<open>JSON\<close> in capitals
  is not one of the four names, and it is dispatched to the JSON formatter.
\<close>

theorem output_dispatch_case_counterexample:
  "''JSON'' \<noteq> ''table'' \<and> ''JSON'' \<noteq> ''json'' \<and> ''JSON'' \<noteq> ''csv'' \<and> ''JSON'' \<noteq> ''parquet''
   \<and> get_formatter ''JSON'' = Inr JSONFormatter
   \<and> output_data (\<lambda>p. None) ''JSON'' [] = Inr Stdout"
  by code_simp

section \<open>Classification of transport errors\<close>

lemma grpc_to_http_table:
  "map_of grpc_to_http c =
     (if c = 0 then Some (200, ''OK'')
      else if c = 1 then Some (499, ''Client Closed Request'')
      else if c = 2 then Some (500, ''Internal Server Error'')
      else if c = 3 then Some (400, ''Invalid Argument'')
      else if c = 4 then Some (504, ''Gateway Timeout'')
      else if c = 5 then Some (404, ''Not Found'')
      else if c = 6 then Some (409, ''Conflict'')
      else if c = 7 then Some (403, ''Permission Denied'')
      else if c = 8 then Some (429, ''Too Many Requests'')
      else if c = 9 then Some (412, ''Failed Precondition'')
      else if c = 10 then Some (409, ''Conflict'')
      else if c = 11 then Some (400, ''Out of Range'')
      else if c = 12 then Some (501, ''Not Implemented'')
      else if c = 13 then Some (500, ''Internal Server Error'')
      else if c = 14 then Some (503, ''Service Unavailable'')
      else if c = 15 then Some (500, ''Internal Server Error'')
      else if c = 16 then Some (401, ''Unauthenticated'')
      else None)"
  by (simp add: grpc_to_http_def)

lemma match_grpc_status_length:
  "match_grpc_status s = Some g \<Longrightarrow> length g \<le> length s"
proof -
  assume a: "match_grpc_status s = Some g"
  then have "g = takeWhile py_isdigit (drop 12 s)"
    by (simp add: match_grpc_status_def Let_def split: if_splits)
  then have "length g \<le> length (drop 12 s)"
    using length_takeWhile_le [of py_isdigit "drop 12 s"] by blast
  then show ?thesis by simp
qed

lemma re_search_grpc_status_length:
  "re_search match_grpc_status text = Some g \<Longrightarrow> length g \<le> length text"
proof (induction "text")
  case Nil
  then show ?case using match_grpc_status_length [of "[]" g] by simp
next
  case (Cons c s)
  show ?case
  proof (cases "match_grpc_status (c # s)")
    case None
    with Cons show ?thesis by simp
  next
    case (Some x)
    with Cons.prems have "x = g" by simp
    with Some match_grpc_status_length [of "c # s" g] show ?thesis by simp
  qed
qed

lemma py_int_short: "length ds \<le> 4300 \<Longrightarrow> \<exists>n. py_int ds = Inr n"
  by (simp add: py_int_def)

lemma grpc_status_code:
  "(case re_search match_grpc_status text of Some g \<Rightarrow> py_int g | None \<Rightarrow> Inr (- 1)) = Inr n
   \<Longrightarrow> grpc_error_of_text text m =
     Inr \<lparr>title = None,
          status = Some (fst (case map_of grpc_to_http n of
                                Some x \<Rightarrow> x | None \<Rightarrow> (500, ''Server Error''))),
          type_field = None, detail = Some (py_strip m), instance_field = None,
          reason = Some (snd (case map_of grpc_to_http n of
                                Some x \<Rightarrow> x | None \<Rightarrow> (500, ''Server Error''))),
          headers = None,
          body = Some (if length text < 500 then text else take 500 text @ ''...'')\<rparr>"
  by (simp add: grpc_error_of_text_def Let_def ebind_def split: prod.splits)

lemma grpc_error_of_text_short:
  assumes "length text \<le> 4300"
  shows "\<exists>e. grpc_error_of_text text m = Inr e
           \<and> detail e = Some (py_strip m)
           \<and> body e = Some (if length text < 500 then text else take 500 text @ ''...'')"
proof -
  have "\<exists>n. (case re_search match_grpc_status text of
               Some g \<Rightarrow> py_int g | None \<Rightarrow> Inr (- 1)) = Inr n"
  proof (cases "re_search match_grpc_status text")
    case None
    then show ?thesis by simp
  next
    case (Some g)
    from re_search_grpc_status_length [OF this] assms have "length g \<le> 4300" by simp
    from py_int_short [OF this] Some show ?thesis by simp
  qed
  then obtain n where "(case re_search match_grpc_status text of
               Some g \<Rightarrow> py_int g | None \<Rightarrow> Inr (- 1)) = Inr n" ..
  from grpc_status_code [OF this, of m] show ?thesis by simp
qed

lemma parse_grpc_error_matched:
  "message_match text = Some m \<Longrightarrow>
     parse_grpc_error (RuntimeError text # causes)
       = ebind (grpc_error_of_text text m) (\<lambda>parsed. Inr (Some parsed))"
  by simp

lemma grpc_body_untruncated_below_500:
  assumes "message_match text = Some m" and "length text < 500"
  shows "\<exists>e. parse_grpc_error (RuntimeError text # causes) = Inr (Some e) \<and> body e = Some text"
proof -
  from assms(2) have "length text \<le> 4300" by simp
  from grpc_error_of_text_short [OF this, of m] assms(2)
  obtain e where "grpc_error_of_text text m = Inr e" "body e = Some text" by auto
  with assms(1) show ?thesis by (simp add: ebind_def)
qed

lemma grpc_body_truncated_above_500:
  assumes "message_match text = Some m" and "500 < length text" and "length text \<le> 4300"
  shows "\<exists>e. parse_grpc_error (RuntimeError text # causes) = Inr (Some e)
           \<and> body e = Some (take 500 text @ ''...'')"
proof -
  from grpc_error_of_text_short [OF assms(3), of m] assms(2)
  obtain e where "grpc_error_of_text text m = Inr e" "body e = Some (take 500 text @ ''...'')"
    by auto
  with assms(1) show ?thesis by (simp add: ebind_def)
qed

lemma grpc_body_of_result:
  assumes "message_match text = Some m"
    and "parse_grpc_error (RuntimeError text # causes) = Inr r"
  shows "\<exists>e. r = Some e
           \<and> body e = Some (if length text < 500 then text else take 500 text @ ''...'')"
  using assms
  by (auto simp: ebind_def grpc_error_of_text_def Let_def split: sum.splits prod.splits)

lemma grpc_status_5_not_found:
  "message_match text = Some m \<Longrightarrow> re_search match_grpc_status text = Some ''5'' \<Longrightarrow>
     \<exists>e. parse_grpc_error (RuntimeError text # causes) = Inr (Some e)
         \<and> status e = Some 404 \<and> reason e = Some ''Not Found''"
  by (simp add: grpc_error_of_text_def Let_def ebind_def py_int_def grpc_to_http_table)

lemma grpc_status_missing:
  "message_match text = Some m \<Longrightarrow> re_search match_grpc_status text = None \<Longrightarrow>
     \<exists>e. parse_grpc_error (RuntimeError text # causes) = Inr (Some e)
         \<and> status e = Some 500 \<and> reason e = Some ''Server Error''"
  by (simp add: grpc_error_of_text_def Let_def ebind_def grpc_to_http_table)

lemma grpc_status_too_long:
  "message_match text = Some m \<Longrightarrow> re_search match_grpc_status text = Some g \<Longrightarrow>
   4300 < length g \<Longrightarrow>
     \<exists>e. parse_grpc_error (RuntimeError text # causes) = Inl (ValueError e)"
  by (simp add: grpc_error_of_text_def Let_def ebind_def py_int_def)

text \<open>
  Claim C6. When a message is extracted from the text of a \<open>RuntimeError\<close>, the status
  and the reason come from the table \<open>grpc_to_http\<close> at the number after
  \<open>grpc_status:\<close> (500 "Server Error" when the number is unknown or missing), as the
  lemmas above state; a text shorter than 500 characters is the body as it is and a
  longer one is cut to 500 characters and marked with an ellipsis. The claim has the
  body be the raw text unless the text is longer than 500 characters. The code compares
  with \<open><\<close>: the text below has exactly 500 characters, nothing of it is cut, and its
  body carries the ellipsis all the same, 503 characters in all.
\<close>

theorem parse_grpc_error_body_at_500:
  "length (''grpc_message:'' @ [CHR 0x22] @ ''x'' @ [CHR 0x22] @ '', grpc_status:5 ''
             @ replicate 468 (CHR ''a'')) = 500
   \<and> parse_grpc_error
         [RuntimeError (''grpc_message:'' @ [CHR 0x22] @ ''x'' @ [CHR 0x22]
                          @ '', grpc_status:5 '' @ replicate 468 (CHR ''a''))]
       = Inr (Some \<lparr>title = None, status = Some 404, type_field = None, detail = Some ''x'',
                instance_field = None, reason = Some ''Not Found'', headers = None,
                body = Some (''grpc_message:'' @ [CHR 0x22] @ ''x'' @ [CHR 0x22]
                               @ '', grpc_status:5 '' @ replicate 468 (CHR ''a'') @ ''...'')\<rparr>)"
proof -
  let ?t = "''grpc_message:'' @ [CHR 0x22] @ ''x'' @ [CHR 0x22] @ '', grpc_status:5 ''
              @ replicate 468 (CHR ''a'')"
  have len: "length ?t = 500" by simp
  have mm: "message_match ?t = Some ''x''" by code_simp
  have st: "re_search match_grpc_status ?t = Some ''5''" by code_simp
  have sx: "py_strip ''x'' = ''x''" by (simp add: py_strip_def py_isspace_def)
  have "parse_grpc_error [RuntimeError ?t]
          = ebind (grpc_error_of_text ?t ''x'') (\<lambda>parsed. Inr (Some parsed))"
    using mm by (rule parse_grpc_error_matched)
  moreover have "grpc_error_of_text ?t ''x''
       = Inr \<lparr>title = None, status = Some 404, type_field = None, detail = Some ''x'',
          instance_field = None, reason = Some ''Not Found'', headers = None,
          body = Some (?t @ ''...'')\<rparr>"
    unfolding grpc_error_of_text_def st sx
    by (simp add: grpc_to_http_table py_int_def ebind_def)
  ultimately show ?thesis using len by (simp add: ebind_def)
qed

section \<open>Environment-variable expansion\<close>

lemma ebind_simps [simp]:
  "ebind (Inl e) f = Inl e" "ebind (Inr x) f = f x"
  by (simp_all add: ebind_def)

lemma takeWhile_run:
  "list_all P xs \<Longrightarrow> \<not> P x \<Longrightarrow> takeWhile P (xs @ x # l) = xs"
  by (induction xs) simp_all

lemma dropWhile_run:
  "list_all P xs \<Longrightarrow> \<not> P x \<Longrightarrow> dropWhile P (xs @ x # l) = x # l"
  by (induction xs) simp_all

lemma startswith_char: "startswith u [c] \<longleftrightarrow> (\<exists>l. u = c # l)"
  by (cases u) (auto simp: startswith_def)

lemma startswith_two: "startswith s [a, b] \<longleftrightarrow> (\<exists>l. s = a # b # l)"
  by (cases s; cases "tl s") (auto simp: startswith_def)

lemma list_all_takeWhile: "list_all P (takeWhile P xs)"
  by (induction xs) simp_all

lemma match_var_no_prefix: "\<not> startswith s ''${'' \<Longrightarrow> match_var s = None"
  by (simp add: match_var_def)

lemma match_var_prefix:
  "match_var (CHR ''$'' # CHR ''{'' # t) =
     (if takeWhile name_char t = [] then None
      else (case dropWhile name_char t of
              [] \<Rightarrow> None
            | c # l \<Rightarrow>
                if c = CHR ''}'' then Some (takeWhile name_char t, None, l)
                else if c = CHR '':'' then
                  (case dropWhile default_char l of
                     [] \<Rightarrow> None
                   | e # m \<Rightarrow>
                       if e = CHR ''}'' then
                         Some (takeWhile name_char t, Some (takeWhile default_char l), m)
                       else None)
                else None))"
proof -
  let ?N = "takeWhile name_char t"
  have sw: "startswith (CHR ''$'' # CHR ''{'' # t) ''${'' = True" by (simp add: startswith_def)
  have 1: "match_var (CHR ''$'' # CHR ''{'' # t) =
     (if ?N = [] then None
      else if startswith (dropWhile name_char t) ''}'' then
        Some (?N, None, drop 1 (dropWhile name_char t))
      else if startswith (dropWhile name_char t) '':'' then
        (if startswith (dropWhile default_char (drop 1 (dropWhile name_char t))) ''}'' then
           Some (?N, Some (takeWhile default_char (drop 1 (dropWhile name_char t))),
                 drop 1 (dropWhile default_char (drop 1 (dropWhile name_char t))))
         else None)
      else None)"
    unfolding match_var_def sw Let_def by simp
  show ?thesis
  proof (cases "dropWhile name_char t")
    case Nil
    show ?thesis unfolding 1 Nil by (simp add: startswith_def)
  next
    case u: (Cons c l)
    show ?thesis
    proof (cases "dropWhile default_char l")
      case Nil
      show ?thesis unfolding 1 u by (simp add: startswith_def Nil del: dropWhile_eq_Nil_conv)
    next
      case w: (Cons e m)
      show ?thesis unfolding 1 u by (simp add: startswith_def w)
    qed
  qed
qed

lemma match_var_complete:
  assumes "n \<noteq> []" and "reference_parts n d"
  shows "match_var (reference_text n d @ r) = Some (n, d, r)"
proof (cases d)
  case None
  with assms have n: "list_all name_char n" by (simp add: reference_parts_def)
  have c: "\<not> name_char (CHR ''}'')" by (simp add: name_char_def)
  have "match_var (CHR ''$'' # CHR ''{'' # n @ CHR ''}'' # r) = Some (n, None, r)"
    unfolding match_var_prefix takeWhile_run [OF n c] dropWhile_run [OF n c]
    using assms(1) by simp
  then show ?thesis using None by (simp add: reference_text_def)
next
  case (Some x)
  with assms have n: "list_all name_char n" and x: "list_all default_char x"
    by (simp_all add: reference_parts_def)
  have c: "\<not> name_char (CHR '':'')" by (simp add: name_char_def)
  have e: "\<not> default_char (CHR ''}'')" by (simp add: default_char_def)
  have "match_var (CHR ''$'' # CHR ''{'' # n @ CHR '':'' # x @ CHR ''}'' # r) = Some (n, Some x, r)"
    unfolding match_var_prefix takeWhile_run [OF n c] dropWhile_run [OF n c] list.case
      takeWhile_run [OF x e] dropWhile_run [OF x e]
    using assms(1) by simp
  then show ?thesis using Some by (simp add: reference_text_def)
qed

lemma match_var_sound:
  assumes "match_var s = Some (n, d, r)"
  shows "n \<noteq> [] \<and> reference_parts n d \<and> s = reference_text n d @ r"
proof -
  have "startswith s ''${''" using assms match_var_no_prefix by force
  then obtain t where s: "s = CHR ''$'' # CHR ''{'' # t" by (auto simp: startswith_two)
  have t: "t = takeWhile name_char t @ dropWhile name_char t" by simp
  from assms have m: "match_var (CHR ''$'' # CHR ''{'' # t) = Some (n, d, r)"
    unfolding s .
  then have ne: "takeWhile name_char t \<noteq> []"
    unfolding match_var_prefix by (simp split: if_splits)
  from m ne obtain c l where u: "dropWhile name_char t = c # l"
    unfolding match_var_prefix by (cases "dropWhile name_char t") simp_all
  show ?thesis
  proof (cases "c = CHR ''}''")
    case True
    with m ne u have "n = takeWhile name_char t" "d = None" "r = l"
      unfolding match_var_prefix by simp_all
    moreover have "t = takeWhile name_char t @ CHR ''}'' # l" using t u True by simp
    ultimately show ?thesis using ne s
      by (simp add: reference_parts_def reference_text_def list_all_takeWhile)
  next
    case False
    with m ne u have c: "c = CHR '':''"
      unfolding match_var_prefix by (simp split: if_splits)
    have v: "l = takeWhile default_char l @ dropWhile default_char l" by simp
    from m ne u c obtain e k where w: "dropWhile default_char l = e # k"
      unfolding match_var_prefix by (cases "dropWhile default_char l") simp_all
    with m ne u c have e: "e = CHR ''}''" and n: "n = takeWhile name_char t"
      and d: "d = Some (takeWhile default_char l)" and r: "r = k"
      unfolding match_var_prefix by (simp_all split: if_splits)
    have "l = takeWhile default_char l @ CHR ''}'' # r" using v w e r by simp
    with t u c have "t = takeWhile name_char t @ CHR '':'' # takeWhile default_char l
                          @ CHR ''}'' # r" by simp
    with s d ne n show ?thesis
      by (simp add: reference_parts_def reference_text_def list_all_takeWhile)
  qed
qed

lemma match_var_None_iff:
  "match_var s = None \<longleftrightarrow>
     (\<forall>n d r. n \<noteq> [] \<and> reference_parts n d \<longrightarrow> s \<noteq> reference_text n d @ r)"
proof
  assume a: "match_var s = None"
  show "\<forall>n d r. n \<noteq> [] \<and> reference_parts n d \<longrightarrow> s \<noteq> reference_text n d @ r"
  proof (intro allI impI notI)
    fix n d r
    assume "n \<noteq> [] \<and> reference_parts n d" and "s = reference_text n d @ r"
    then have "match_var s = Some (n, d, r)" using match_var_complete by blast
    with a show False by simp
  qed
next
  assume a: "\<forall>n d r. n \<noteq> [] \<and> reference_parts n d \<longrightarrow> s \<noteq> reference_text n d @ r"
  show "match_var s = None"
  proof (rule ccontr)
    assume "match_var s \<noteq> None"
    then obtain n d r where "match_var s = Some (n, d, r)" by (cases "match_var s") auto
    from match_var_sound [OF this] a show False by blast
  qed
qed

lemma reference_text_Cons: "reference_text n d @ r = CHR ''$'' # tl (reference_text n d @ r)"
  by (simp add: reference_text_def)

lemma expand_env_var_reference:
  assumes "n \<noteq> []" and "reference_parts n d"
  shows "expand_env_var environ (reference_text n d @ r) =
           ebind (replace_var environ n d) (\<lambda>x.
           ebind (expand_env_var environ r) (\<lambda>y. Inr (x @ y)))"
proof -
  have m: "match_var (CHR ''$'' # tl (reference_text n d @ r)) = Some (n, d, r)"
    using match_var_complete [OF assms, of r] reference_text_Cons [of n d r] by simp
  have "expand_env_var environ (CHR ''$'' # tl (reference_text n d @ r)) =
          ebind (replace_var environ n d) (\<lambda>x.
          ebind (expand_env_var environ r) (\<lambda>y. Inr (x @ y)))"
    unfolding expand_env_var.simps(2) m by simp
  then show ?thesis using reference_text_Cons [of n d r] by simp
qed

lemma expand_env_var_copy:
  assumes "match_var (c # s) = None"
  shows "expand_env_var environ (c # s) = ebind (expand_env_var environ s) (\<lambda>y. Inr (c # y))"
  unfolding expand_env_var.simps(2) assms by simp

lemma expand_env_var_no_match:
  "(\<And>p. match_var (drop p s) = None) \<Longrightarrow> expand_env_var environ s = Inr s"
proof (induction s)
  case Nil
  show ?case by simp
next
  case (Cons c s)
  have "match_var (c # s) = None" using Cons.prems [of 0] by simp
  moreover have "expand_env_var environ s = Inr s"
  proof (rule Cons.IH)
    fix p show "match_var (drop p s) = None" using Cons.prems [of "Suc p"] by simp
  qed
  ultimately show ?case by (simp add: expand_env_var_copy)
qed

lemma expand_env_var_literal:
  assumes "\<forall>p n d r. n \<noteq> [] \<and> reference_parts n d \<longrightarrow> s \<noteq> p @ reference_text n d @ r"
  shows "expand_env_var environ s = Inr s"
proof (rule expand_env_var_no_match)
  fix p
  show "match_var (drop p s) = None"
    unfolding match_var_None_iff
  proof (intro allI impI notI)
    fix n d r
    assume v: "n \<noteq> [] \<and> reference_parts n d" and e: "drop p s = reference_text n d @ r"
    have "s = take p s @ reference_text n d @ r" using e by (metis append_take_drop_id)
    with assms v show False by blast
  qed
qed

lemma no_dollar_no_reference:
  assumes "CHR ''$'' \<notin> set s"
  shows "\<forall>p n d r. n \<noteq> [] \<and> reference_parts n d \<longrightarrow> s \<noteq> p @ reference_text n d @ r"
proof (intro allI impI notI)
  fix p n d r
  assume "s = p @ reference_text n d @ r"
  then have "CHR ''$'' \<in> set s" by (simp add: reference_text_def)
  with assms show False by simp
qed

lemma expand_config_dict_entries:
  "expand_config_dict environ kvs = Inr kvs' \<Longrightarrow> list_all2 (expanded_entry environ) kvs kvs'"
proof (induction kvs arbitrary: kvs')
  case Nil
  then show ?case by simp
next
  case (Cons kv kvs)
  obtain k v where kv: "kv = (k, v)" by (cases kv)
  from Cons.prems obtain v' r where
    v': "(case v of
            PDict d \<Rightarrow> ebind (expand_config_dict environ d) (\<lambda>r. Inr (PDict r))
          | PStr s \<Rightarrow> ebind (expand_env_var environ s) (\<lambda>r. Inr (PStr r))
          | _ \<Rightarrow> Inr v) = Inr v'"
    and r: "expand_config_dict environ kvs = Inr r" and e: "kvs' = (k, v') # r"
    unfolding kv expand_config_dict.simps by (auto simp: ebind_Inr_iff)
  have "expanded_entry environ (k, v) (k, v')"
    using v' by (cases v) (auto simp: expanded_entry_def ebind_Inr_iff)
  with Cons.IH [OF r] e kv show ?case by simp
qed

lemma expand_config_dict_complete:
  "list_all2 (expanded_entry environ) kvs kvs' \<Longrightarrow> expand_config_dict environ kvs = Inr kvs'"
proof (induction rule: list_all2_induct)
  case Nil
  then show ?case by simp
next
  case (Cons kv kvs kv' kvs')
  obtain k v where kv: "kv = (k, v)" by (cases kv)
  obtain k' v' where kv': "kv' = (k', v')" by (cases kv')
  from Cons.hyps(1) have k: "k' = k" unfolding kv kv' by (simp add: expanded_entry_def)
  from Cons.hyps(1) have
    "(case v of
        PDict d \<Rightarrow> ebind (expand_config_dict environ d) (\<lambda>r. Inr (PDict r))
      | PStr s \<Rightarrow> ebind (expand_env_var environ s) (\<lambda>r. Inr (PStr r))
      | _ \<Rightarrow> Inr v) = Inr v'"
    unfolding kv kv' by (cases v) (auto simp: expanded_entry_def)
  with Cons.IH k show ?case unfolding kv kv' by simp
qed

text \<open>
  Claim C1, as amended. Expansion scans the string from the left. Where a reference
  \<open>${NAME}\<close> or \<open>${NAME:DEFAULT}\<close> begins, NAME being a non-empty run of characters
  other than \<open>}\<close> and \<open>:\<close> and DEFAULT a run of characters other than \<open>}\<close>, the
  reference is replaced by the value of the environment variable NAME when it is set,
  else by DEFAULT when there is one, else the call fails with an error naming NAME; the
  text after the reference is expanded on its own and the replacement is not scanned
  again. Where no reference begins, the character is copied. A string in which no
  reference occurs is returned unchanged. In a configuration mapping every entry keeps
  its key; a string is replaced by its expansion, a nested mapping by its expanded
  mapping, and every other value is passed through unchanged.
\<close>

theorem expand_env_var_contract:
  "(n \<noteq> [] \<and> reference_parts n d \<longrightarrow>
      expand_env_var environ (reference_text n d @ r) =
        (case environ n of
           Some v \<Rightarrow> ebind (expand_env_var environ r) (\<lambda>y. Inr (v @ y))
         | None \<Rightarrow>
             (case d of
                Some x \<Rightarrow> ebind (expand_env_var environ r) (\<lambda>y. Inr (x @ y))
              | None \<Rightarrow>
                  Inl (ValueError (''Environment variable '' @ n
                                     @ '' is not set and no default provided'')))))
   \<and> ((\<forall>n d r. n \<noteq> [] \<and> reference_parts n d \<longrightarrow> c # s \<noteq> reference_text n d @ r) \<longrightarrow>
        expand_env_var environ (c # s) = ebind (expand_env_var environ s) (\<lambda>y. Inr (c # y)))
   \<and> ((\<forall>p n d r. n \<noteq> [] \<and> reference_parts n d \<longrightarrow> t \<noteq> p @ reference_text n d @ r) \<longrightarrow>
        expand_env_var environ t = Inr t)
   \<and> (expand_config_dict environ kvs = Inr kvs' \<longrightarrow>
        list_all2 (expanded_entry environ) kvs kvs')"
proof (intro conjI impI)
  assume "n \<noteq> [] \<and> reference_parts n d"
  then show "expand_env_var environ (reference_text n d @ r) =
        (case environ n of
           Some v \<Rightarrow> ebind (expand_env_var environ r) (\<lambda>y. Inr (v @ y))
         | None \<Rightarrow>
             (case d of
                Some x \<Rightarrow> ebind (expand_env_var environ r) (\<lambda>y. Inr (x @ y))
              | None \<Rightarrow>
                  Inl (ValueError (''Environment variable '' @ n
                                     @ '' is not set and no default provided''))))"
    by (simp add: expand_env_var_reference replace_var_def split: option.splits)
next
  assume "\<forall>n d r. n \<noteq> [] \<and> reference_parts n d \<longrightarrow> c # s \<noteq> reference_text n d @ r"
  then have "match_var (c # s) = None" by (simp only: match_var_None_iff)
  then show "expand_env_var environ (c # s) = ebind (expand_env_var environ s) (\<lambda>y. Inr (c # y))"
    by (rule expand_env_var_copy)
next
  assume "\<forall>p n d r. n \<noteq> [] \<and> reference_parts n d \<longrightarrow> t \<noteq> p @ reference_text n d @ r"
  then show "expand_env_var environ t = Inr t" by (rule expand_env_var_literal)
next
  assume "expand_config_dict environ kvs = Inr kvs'"
  then show "list_all2 (expanded_entry environ) kvs kvs'" by (rule expand_config_dict_entries)
qed

text \<open>
  The examples of the specification, with \<open>TEST_VAR=hello\<close> the only variable set:
  \<open>${TEST_VAR}-world\<close> gives \<open>hello-world\<close>, \<open>${UNSET_VAR:fallback}\<close> gives
  \<open>fallback\<close>, \<open>${UNSET_VAR}\<close> fails, \<open>literal_value\<close> is unchanged, and a mapping
  with an integer and a boolean is unchanged.
\<close>

theorem expand_env_var_contract_witness:
  "expand_env_var [''TEST_VAR'' \<mapsto> ''hello''] ''${TEST_VAR}-world'' = Inr ''hello-world''
   \<and> expand_env_var [''TEST_VAR'' \<mapsto> ''hello''] ''${UNSET_VAR:fallback}'' = Inr ''fallback''
   \<and> expand_env_var [''TEST_VAR'' \<mapsto> ''hello''] ''${UNSET_VAR}'' =
       Inl (ValueError ''Environment variable UNSET_VAR is not set and no default provided'')
   \<and> expand_env_var [''TEST_VAR'' \<mapsto> ''hello''] ''literal_value'' = Inr ''literal_value''
   \<and> list_all2 (expanded_entry [''TEST_VAR'' \<mapsto> ''hello''])
         [(''stream_max_workers'', PInt 8), (''cache_enabled'', PBool True)]
         [(''stream_max_workers'', PInt 8), (''cache_enabled'', PBool True)]"
proof -
  let ?env = "[''TEST_VAR'' \<mapsto> ''hello'']"
  have lit: "\<forall>p n d r. n \<noteq> [] \<and> reference_parts n d \<longrightarrow>
               ''-world'' \<noteq> p @ reference_text n d @ r"
            "\<forall>p n d r. n \<noteq> [] \<and> reference_parts n d \<longrightarrow>
               ''literal_value'' \<noteq> p @ reference_text n d @ r"
            "\<forall>p n d r. n \<noteq> [] \<and> reference_parts n d \<longrightarrow>
               [] \<noteq> p @ reference_text n d @ r"
    by (rule no_dollar_no_reference, simp)+
  have parts: "reference_parts ''TEST_VAR'' None" "reference_parts ''UNSET_VAR'' None"
    "reference_parts ''UNSET_VAR'' (Some ''fallback'')"
    by (simp_all add: reference_parts_def name_char_def default_char_def)
  have rt: "reference_text ''TEST_VAR'' None @ ''-world'' = ''${TEST_VAR}-world''"
    "reference_text ''UNSET_VAR'' (Some ''fallback'') @ [] = ''${UNSET_VAR:fallback}''"
    "reference_text ''UNSET_VAR'' None @ [] = ''${UNSET_VAR}''"
    by (simp_all add: reference_text_def)
  have dict: "expand_config_dict ?env
                [(''stream_max_workers'', PInt 8), (''cache_enabled'', PBool True)]
              = Inr [(''stream_max_workers'', PInt 8), (''cache_enabled'', PBool True)]"
    by simp
  have w: "expand_env_var ?env ''-world'' = Inr ''-world''"
    using expand_env_var_contract [of _ _ ?env _ _ _ "''-world''"] lit(1) by blast
  have e: "expand_env_var ?env [] = Inr []" by simp
  from expand_env_var_contract [of "''TEST_VAR''" None ?env "''-world''"] parts(1) w
  have 1: "expand_env_var ?env ''${TEST_VAR}-world'' = Inr ''hello-world''"
    unfolding rt by simp
  from expand_env_var_contract [of "''UNSET_VAR''" "Some ''fallback''" ?env "[]"] parts(3) e
  have 2: "expand_env_var ?env ''${UNSET_VAR:fallback}'' = Inr ''fallback''"
    unfolding rt by simp
  from expand_env_var_contract [of "''UNSET_VAR''" None ?env "[]"] parts(2)
  have 3: "expand_env_var ?env ''${UNSET_VAR}'' =
       Inl (ValueError ''Environment variable UNSET_VAR is not set and no default provided'')"
    unfolding rt by simp
  from expand_env_var_contract [of _ _ ?env _ _ _ "''literal_value''"] lit(2)
  have 4: "expand_env_var ?env ''literal_value'' = Inr ''literal_value''" by blast
  from expand_env_var_contract
         [of _ _ ?env _ _ _ _ "[(''stream_max_workers'', PInt 8), (''cache_enabled'', PBool True)]"
             "[(''stream_max_workers'', PInt 8), (''cache_enabled'', PBool True)]"] dict
  have 5: "list_all2 (expanded_entry ?env)
         [(''stream_max_workers'', PInt 8), (''cache_enabled'', PBool True)]
         [(''stream_max_workers'', PInt 8), (''cache_enabled'', PBool True)]" by blast
  from 1 2 3 4 5 show ?thesis by blast
qed

text \<open>
  The claim as stated describes NAME and DEFAULT alike, as runs of characters without
  \<open>}\<close> (and, for NAME, without \<open>:\<close>), and so lets either be empty. An empty DEFAULT
  is indeed accepted: \<open>${A:}\<close> expands to the empty string. An empty NAME is not: the
  string \<open>${:x}\<close> would be a reference with the empty NAME and the DEFAULT \<open>x\<close>, to be
  replaced by \<open>x\<close> since no variable is set; the pattern asks for at least one
  character of NAME, and the string is returned unchanged.
\<close>

theorem expand_env_var_empty_name_counterexample:
  "reference_parts [] (Some ''x'')
   \<and> reference_text [] (Some ''x'') = ''${:x}''
   \<and> expand_env_var Map.empty ''${:x}'' = Inr ''${:x}''
   \<and> ''${:x}'' \<noteq> ''x''
   \<and> reference_parts ''A'' (Some [])
   \<and> reference_text ''A'' (Some []) = ''${A:}''
   \<and> expand_env_var Map.empty ''${A:}'' = Inr []"
  by (simp add: reference_parts_def reference_text_def match_var_def startswith_def
        name_char_def default_char_def replace_var_def)

section \<open>Saving and loading a configuration\<close>

lemma remove_empty_values_PDict: "remove_empty_values (PDict kvs) = PDict (kept_items kvs)"
  by (simp add: kept_items_def)

lemma map_of_kept_items:
  "distinct (map fst kvs) \<Longrightarrow>
     map_of (kept_items kvs) k =
       (case map_of kvs k of
          None \<Rightarrow> None
        | Some v \<Rightarrow> if v \<noteq> PStr [] \<and> v \<noteq> PNone then Some (remove_empty_values v) else None)"
proof (induction kvs)
  case Nil
  show ?case by (simp add: kept_items_def)
next
  case (Cons kv kvs)
  obtain k' v' where kv: "kv = (k', v')" by (cases kv)
  from Cons.prems kv have d: "distinct (map fst kvs)" and n: "k' \<notin> fst ` set kvs" by simp_all
  have ih: "map_of (kept_items kvs) k =
       (case map_of kvs k of
          None \<Rightarrow> None
        | Some v \<Rightarrow> if v \<noteq> PStr [] \<and> v \<noteq> PNone then Some (remove_empty_values v) else None)"
    using Cons.IH [OF d] .
  have none: "map_of kvs k' = None" using n by (simp add: map_of_eq_None_iff)
  have step: "kept_items ((k', v') # kvs) =
          (if v' \<noteq> PStr [] \<and> v' \<noteq> PNone then (k', remove_empty_values v') # kept_items kvs
           else kept_items kvs)"
    by (simp add: kept_items_def)
  have "map_of (kept_items ((k', v') # kvs)) k =
       (case map_of ((k', v') # kvs) k of
          None \<Rightarrow> None
        | Some v \<Rightarrow> if v \<noteq> PStr [] \<and> v \<noteq> PNone then Some (remove_empty_values v) else None)"
    using ih none by (cases "k = k'") (simp_all add: step)
  then show ?case by (simp only: kv)
qed

lemma str_field_kept:
  assumes "distinct (map fst kvs)" and "map_of kvs key = Some (PStr v)"
  shows "str_field (kept_items kvs) key dflt = Inr (or_default dflt v)"
  using assms by (simp add: str_field_def map_of_kept_items or_default_def)

lemma int_or_str_field_kept:
  assumes "distinct (map fst kvs)" and "map_of kvs key = Some (dump_int_or_str x)"
  shows "int_or_str_field lx (kept_items kvs) key dflt = Inr (or_default_int dflt x)"
  using assms
  by (cases x)
     (simp_all add: int_or_str_field_def map_of_kept_items or_default_int_def dump_int_or_str_def)

lemma bool_or_str_field_kept:
  assumes "distinct (map fst kvs)" and "map_of kvs key = Some (dump_bool_or_str x)"
  shows "bool_or_str_field lx (kept_items kvs) key dflt = Inr (or_default_bool dflt x)"
  using assms
  by (cases x)
     (simp_all add: bool_or_str_field_def map_of_kept_items or_default_bool_def
        dump_bool_or_str_def)

lemma bool_field_kept:
  assumes "distinct (map fst kvs)" and "map_of kvs key = Some (PBool b)"
  shows "bool_field lx (kept_items kvs) key dflt = Inr b"
  using assms by (simp add: bool_field_def map_of_kept_items)

lemma profile_section:
  "ProfileConfig_validate (kept_items [(''name'', PStr n)]) =
     Inr \<lparr>name = or_default (name ProfileConfig_default) n\<rparr>"
  by (simp add: ProfileConfig_validate_def str_field_kept)

lemma auth_section:
  assumes "validate_api_key k = Inr k"
  shows "AuthConfig_validate (kept_items [(''api_key'', PStr k)]) = Inr \<lparr>api_key = k\<rparr>"
proof -
  have "k \<noteq> []" using assms by (auto simp: validate_api_key_def split: if_splits)
  then have "map_of (kept_items [(''api_key'', PStr k)]) ''api_key'' = Some (PStr k)"
    by (simp add: map_of_kept_items)
  then show ?thesis using assms by (simp add: AuthConfig_validate_def as_validation_error_def)
qed

lemma transport_section:
  "TransportConfig_validate lx
     (kept_items
        [(''stream_max_workers'', dump_int_or_str a),
         (''stream_max_queue_bound'', dump_int_or_str b),
         (''pyarrow_max_chunksize'', dump_int_or_str c),
         (''max_http_payload_size_mb'', dump_int_or_str d)]) =
     Inr \<lparr>stream_max_workers = or_default_int (stream_max_workers TransportConfig_default) a,
          stream_max_queue_bound =
            or_default_int (stream_max_queue_bound TransportConfig_default) b,
          pyarrow_max_chunksize =
            or_default_int (pyarrow_max_chunksize TransportConfig_default) c,
          max_http_payload_size_mb =
            or_default_int (max_http_payload_size_mb TransportConfig_default) d\<rparr>"
  by (simp add: TransportConfig_validate_def int_or_str_field_kept)

lemma security_section:
  "SecurityConfig_validate lx (kept_items [(''request_verify'', dump_bool_or_str a)]) =
     Inr \<lparr>request_verify = or_default_bool (request_verify SecurityConfig_default) a\<rparr>"
  by (simp add: SecurityConfig_validate_def bool_or_str_field_kept)

lemma storage_section:
  "StorageConfig_validate lx
     (kept_items [(''directory'', PStr a), (''cache_enabled'', PBool b)]) =
     Inr \<lparr>directory = or_default (directory StorageConfig_default) a, cache_enabled = b\<rparr>"
  by (simp add: StorageConfig_validate_def str_field_kept bool_field_kept)

lemma output_section:
  assumes "a \<in> set output_formats"
  shows "OutputConfig_validate (kept_items [(''format'', PStr a)]) =
           Inr \<lparr>format = or_default (format OutputConfig_default) a\<rparr>"
proof -
  have "a \<noteq> []" using assms by (auto simp: output_formats_def)
  then have "or_default (format OutputConfig_default) a = a" by (simp add: or_default_def)
  then show ?thesis using assms by (simp add: OutputConfig_validate_def str_field_kept)
qed

lemma or_default_Nil: "or_default [] v = v"
  by (simp add: or_default_def)

lemma validate_mutually_exclusive_Inr_iff:
  "validate_mutually_exclusive r = Inr r \<longleftrightarrow>
     \<not> ((region r \<noteq> [] \<and> (single_host r \<noteq> [] \<or> single_port r \<noteq> []))
        \<or> (region r \<noteq> [] \<and> base_domain r \<noteq> [])
        \<or> ((single_host r \<noteq> [] \<or> single_port r \<noteq> []) \<and> base_domain r \<noteq> []))"
  by (auto simp: validate_mutually_exclusive_def Let_def)

lemma routing_section:
  assumes vr: "validate_region valid_regions (region r) = Inr (region r)"
    and vm: "validate_mutually_exclusive r = Inr r"
  shows "RoutingConfig_validate valid_regions
           (kept_items
              [(''region'', PStr (region r)),
               (''single_host'', PStr (single_host r)),
               (''single_port'', PStr (single_port r)),
               (''base_domain'', PStr (base_domain r)),
               (''api_host'', PStr (api_host r)),
               (''api_scheme'', PStr (api_scheme r)),
               (''otlp_host'', PStr (otlp_host r)),
               (''otlp_scheme'', PStr (otlp_scheme r)),
               (''flight_host'', PStr (flight_host r)),
               (''flight_port'', PStr (flight_port r)),
               (''flight_scheme'', PStr (flight_scheme r))]) =
         Inr \<lparr>region = or_default (region RoutingConfig_default) (region r),
              single_host = or_default (single_host RoutingConfig_default) (single_host r),
              single_port = or_default (single_port RoutingConfig_default) (single_port r),
              base_domain = or_default (base_domain RoutingConfig_default) (base_domain r),
              api_host = or_default (api_host RoutingConfig_default) (api_host r),
              api_scheme = or_default (api_scheme RoutingConfig_default) (api_scheme r),
              otlp_host = or_default (otlp_host RoutingConfig_default) (otlp_host r),
              otlp_scheme = or_default (otlp_scheme RoutingConfig_default) (otlp_scheme r),
              flight_host = or_default (flight_host RoutingConfig_default) (flight_host r),
              flight_port = or_default (flight_port RoutingConfig_default) (flight_port r),
              flight_scheme =
                or_default (flight_scheme RoutingConfig_default) (flight_scheme r)\<rparr>"
    (is "RoutingConfig_validate valid_regions (kept_items ?L) = Inr ?R")
proof -
  have d: "distinct (map fst ?L)" by simp
  have four: "region RoutingConfig_default = []" "single_host RoutingConfig_default = []"
    "single_port RoutingConfig_default = []" "base_domain RoutingConfig_default = []"
    by (simp_all add: RoutingConfig_default_def)
  have me: "validate_mutually_exclusive ?R = Inr ?R"
    using vm unfolding validate_mutually_exclusive_Inr_iff four or_default_Nil by simp
  have f: "str_field (kept_items ?L) ''region'' (region RoutingConfig_default) = Inr (region r)"
    "str_field (kept_items ?L) ''single_host'' (single_host RoutingConfig_default) =
       Inr (or_default (single_host RoutingConfig_default) (single_host r))"
    "str_field (kept_items ?L) ''single_port'' (single_port RoutingConfig_default) =
       Inr (or_default (single_port RoutingConfig_default) (single_port r))"
    "str_field (kept_items ?L) ''base_domain'' (base_domain RoutingConfig_default) =
       Inr (or_default (base_domain RoutingConfig_default) (base_domain r))"
    "str_field (kept_items ?L) ''api_host'' (api_host RoutingConfig_default) =
       Inr (or_default (api_host RoutingConfig_default) (api_host r))"
    "str_field (kept_items ?L) ''api_scheme'' (api_scheme RoutingConfig_default) =
       Inr (or_default (api_scheme RoutingConfig_default) (api_scheme r))"
    "str_field (kept_items ?L) ''otlp_host'' (otlp_host RoutingConfig_default) =
       Inr (or_default (otlp_host RoutingConfig_default) (otlp_host r))"
    "str_field (kept_items ?L) ''otlp_scheme'' (otlp_scheme RoutingConfig_default) =
       Inr (or_default (otlp_scheme RoutingConfig_default) (otlp_scheme r))"
    "str_field (kept_items ?L) ''flight_host'' (flight_host RoutingConfig_default) =
       Inr (or_default (flight_host RoutingConfig_default) (flight_host r))"
    "str_field (kept_items ?L) ''flight_port'' (flight_port RoutingConfig_default) =
       Inr (or_default (flight_port RoutingConfig_default) (flight_port r))"
    "str_field (kept_items ?L) ''flight_scheme'' (flight_scheme RoutingConfig_default) =
       Inr (or_default (flight_scheme RoutingConfig_default) (flight_scheme r))"
    by (simp_all add: str_field_kept [OF d] four or_default_Nil)
  have r1: "or_default (region RoutingConfig_default) (region r) = region r"
    by (simp add: four or_default_Nil)
  show ?thesis
    unfolding RoutingConfig_validate_def f ebind_simps vr as_validation_error_def sum.case
    using me unfolding r1 by simp
qed

lemma kept_items_Nil: "kept_items [] = []"
  by (simp add: kept_items_def)

lemma kept_items_Cons_PDict:
  "kept_items ((k, PDict d) # kvs) = (k, PDict (kept_items d)) # kept_items kvs"
  by (simp add: kept_items_def)

lemma kept_items_model_dump:
  "kept_items (model_dump c) =
     [(''profile'', PDict (kept_items [(''name'', PStr (name (profile c)))])),
      (''auth'', PDict (kept_items [(''api_key'', PStr (api_key (auth c)))])),
      (''routing'', PDict (kept_items
         [(''region'', PStr (region (routing c))),
          (''single_host'', PStr (single_host (routing c))),
          (''single_port'', PStr (single_port (routing c))),
          (''base_domain'', PStr (base_domain (routing c))),
          (''api_host'', PStr (api_host (routing c))),
          (''api_scheme'', PStr (api_scheme (routing c))),
          (''otlp_host'', PStr (otlp_host (routing c))),
          (''otlp_scheme'', PStr (otlp_scheme (routing c))),
          (''flight_host'', PStr (flight_host (routing c))),
          (''flight_port'', PStr (flight_port (routing c))),
          (''flight_scheme'', PStr (flight_scheme (routing c)))])),
      (''transport'', PDict (kept_items
         [(''stream_max_workers'', dump_int_or_str (stream_max_workers (transport c))),
          (''stream_max_queue_bound'', dump_int_or_str (stream_max_queue_bound (transport c))),
          (''pyarrow_max_chunksize'', dump_int_or_str (pyarrow_max_chunksize (transport c))),
          (''max_http_payload_size_mb'',
             dump_int_or_str (max_http_payload_size_mb (transport c)))])),
      (''security'', PDict (kept_items
         [(''request_verify'', dump_bool_or_str (request_verify (security c)))])),
      (''storage'', PDict (kept_items
         [(''directory'', PStr (directory (storage c))),
          (''cache_enabled'', PBool (cache_enabled (storage c)))])),
      (''output'', PDict (kept_items [(''format'', PStr (format (output_config c)))]))]"
  unfolding model_dump_def kept_items_Cons_PDict kept_items_Nil ..

lemma Config_validate_dump:
  assumes "valid_config valid_regions c"
  shows "Config_validate lx valid_regions (kept_items (model_dump c)) = Inr (with_defaults c)"
proof -
  from assms have k: "validate_api_key (api_key (auth c)) = Inr (api_key (auth c))"
    and vr: "validate_region valid_regions (region (routing c)) = Inr (region (routing c))"
    and vm: "validate_mutually_exclusive (routing c) = Inr (routing c)"
    and fm: "format (output_config c) \<in> set output_formats"
    by (simp_all add: valid_config_def)
  have a: "\<lparr>api_key = api_key (auth c)\<rparr> = auth c" by simp
  show ?thesis
    unfolding kept_items_model_dump Config_validate_def
    by (simp add: Config_fields_def sub_model_def profile_section auth_section [OF k]
          routing_section [OF vr vm] transport_section security_section storage_section
          output_section [OF fm] with_defaults_def a)
qed

text \<open>
  \<open>save\<close>, step by step: what \<open>_ensure_dirs\<close> raises is raised as it is and leaves the
  configuration untouched; what the writing raises is wrapped in a \<open>ConfigError\<close>, the
  profile name having been set already; otherwise the profile name is set and the
  document written is the dump of the configuration without its empty strings.
\<close>

lemma save_ensure_dirs_raises:
  "ensure_dirs os fs = (Inl e, fs1) \<Longrightarrow> save os c pname fs = (Inl e, c, fs1)"
  by (simp add: save_def)

lemma save_write_raises:
  "ensure_dirs os fs = (Inr (), fs1) \<Longrightarrow>
   fs_write_toml os fs1 (get_config_path pname)
     (PDict (kept_items (model_dump (c\<lparr>profile := (profile c)\<lparr>name := pname\<rparr>\<rparr>)))) = (Inl e, fs2) \<Longrightarrow>
     save os c pname fs
       = (Inl (ConfigErrorFrom ''Failed to save config: '' e),
          c\<lparr>profile := (profile c)\<lparr>name := pname\<rparr>\<rparr>, fs2)"
  by (simp add: save_def Let_def kept_items_def)

lemma save_writes:
  "ensure_dirs os fs = (Inr (), fs1) \<Longrightarrow>
   fs_write_toml os fs1 (get_config_path pname)
     (PDict (kept_items (model_dump (c\<lparr>profile := (profile c)\<lparr>name := pname\<rparr>\<rparr>)))) = (Inr (), fs2) \<Longrightarrow>
     save os c pname fs = (Inr (), c\<lparr>profile := (profile c)\<lparr>name := pname\<rparr>\<rparr>, fs2)"
  by (simp add: save_def Let_def kept_items_def)

lemma save_Inr:
  assumes "save os c pname fs = (Inr (), c1, fs1)"
  shows "c1 = c\<lparr>profile := (profile c)\<lparr>name := pname\<rparr>\<rparr>"
    and "\<exists>fs0. fs_write_toml os fs0 (get_config_path pname)
                 (PDict (kept_items (model_dump c1))) = (Inr (), fs1)"
proof -
  obtain r fs0 where ed: "ensure_dirs os fs = (r, fs0)" by (cases "ensure_dirs os fs")
  with assms have r: "r = Inr ()" by (cases r) (simp_all add: save_def)
  let ?c1 = "c\<lparr>profile := (profile c)\<lparr>name := pname\<rparr>\<rparr>"
  obtain w fs2 where
    wr: "fs_write_toml os fs0 (get_config_path pname) (PDict (kept_items (model_dump ?c1)))
           = (w, fs2)"
    by (cases "fs_write_toml os fs0 (get_config_path pname)
                 (PDict (kept_items (model_dump ?c1)))")
  from assms ed r wr have w: "w = Inr ()"
    by (cases w) (simp_all add: save_def Let_def kept_items_def)
  from save_writes [OF ed [unfolded r] wr [unfolded w]] assms
  have e: "c1 = ?c1" "fs1 = fs2" by simp_all
  show "c1 = ?c1" by (rule e(1))
  from wr w e show "\<exists>fs0. fs_write_toml os fs0 (get_config_path pname)
                 (PDict (kept_items (model_dump c1))) = (Inr (), fs1)"
    by blast
qed

lemma load_file:
  assumes "pname \<noteq> []" and "fs_exists os fs (get_config_path pname) = Inr True"
    and "fs_read_toml os fs (get_config_path pname) = Inr d"
    and "Config_validate lx valid_regions d = Inr c"
  shows "load os lx valid_regions environ fs pname False = Inr c"
  using assms by (simp add: load_def ebind_def)

lemma load_not_found:
  assumes "pname \<noteq> []" and "fs_exists os fs (get_config_path pname) = Inr False"
  shows "load os lx valid_regions environ fs pname expand
           = Inl (ConfigError (not_found_message pname))"
  using assms by (simp add: load_def ebind_def)

lemma load_active:
  assumes "get_active_profile os fs = Inr active" and "active \<noteq> []"
  shows "load os lx valid_regions environ fs [] expand
           = load os lx valid_regions environ fs active expand"
  using assms by (simp add: load_def ebind_def)

lemma valid_config_renamed:
  "valid_config valid_regions c \<Longrightarrow>
     valid_config valid_regions (c\<lparr>profile := (profile c)\<lparr>name := pname\<rparr>\<rparr>)"
  by (simp add: valid_config_def)

text \<open>
  Claim C3, as amended. When saving a valid configuration under a non-empty name
  succeeds, on a file system that returns what was written, the configuration's
  profile name has been set to that name, and loading the name afterwards without
  environment expansion yields the configuration as saved, that is, the original with
  its profile name set to the name it was saved under, in which every field that held
  the empty string has its schema default.
\<close>

theorem save_load_round_trip:
  "reads_back os \<and> pname \<noteq> [] \<and> valid_config valid_regions c
     \<and> save os c pname fs = (Inr (), c1, fs1) \<longrightarrow>
   c1 = c\<lparr>profile := (profile c)\<lparr>name := pname\<rparr>\<rparr>
   \<and> load os lx valid_regions environ fs1 pname False = Inr (with_defaults c1)"
proof (intro impI)
  assume a: "reads_back os \<and> pname \<noteq> [] \<and> valid_config valid_regions c
     \<and> save os c pname fs = (Inr (), c1, fs1)"
  then have rb: "reads_back os" and n: "pname \<noteq> []" and v: "valid_config valid_regions c"
    and s: "save os c pname fs = (Inr (), c1, fs1)" by blast+
  have c1: "c1 = c\<lparr>profile := (profile c)\<lparr>name := pname\<rparr>\<rparr>" by (rule save_Inr(1) [OF s])
  from save_Inr(2) [OF s] obtain fs0 where
    w: "fs_write_toml os fs0 (get_config_path pname) (PDict (kept_items (model_dump c1)))
          = (Inr (), fs1)" ..
  with rb have ex: "fs_exists os fs1 (get_config_path pname) = Inr True"
    and rd: "fs_read_toml os fs1 (get_config_path pname) = Inr (kept_items (model_dump c1))"
    unfolding reads_back_def by blast+
  have "valid_config valid_regions c1" unfolding c1 using v by (rule valid_config_renamed)
  then have "Config_validate lx valid_regions (kept_items (model_dump c1)) = Inr (with_defaults c1)"
    by (rule Config_validate_dump)
  from load_file [OF n ex rd this]
  have "load os lx valid_regions environ fs1 pname False = Inr (with_defaults c1)" .
  with c1 show "c1 = c\<lparr>profile := (profile c)\<lparr>name := pname\<rparr>\<rparr>
   \<and> load os lx valid_regions environ fs1 pname False = Inr (with_defaults c1)"
    by (rule conjI)
qed

lemma valid_test_config: "valid_config [] test_config"
  by (simp add: valid_config_def test_config_def validate_api_key_def py_strip_def
        py_isspace_def validate_region_def validate_mutually_exclusive_def
        RoutingConfig_default_def OutputConfig_default_def output_formats_def)

lemma ensure_dirs_fresh_store:
  "ensure_dirs mem_os fresh_store = (Inr (), fresh_store\<lparr>profiles_dir := Some []\<rparr>)"
  by (simp add: ensure_dirs_def mem_mkdir_def mem_node_def fresh_store_def)

lemma save_fresh_store:
  assumes "pname \<noteq> ''default''" and "plain_name (pname @ ''.toml'')"
  shows "save mem_os c pname fresh_store =
     (Inr (), c\<lparr>profile := (profile c)\<lparr>name := pname\<rparr>\<rparr>,
      \<lparr>searchable = True, default_config_file = None,
       profiles_dir =
         Some [(pname @ ''.toml'',
                File (Toml (kept_items
                              (model_dump (c\<lparr>profile := (profile c)\<lparr>name := pname\<rparr>\<rparr>)))))],
       active_profile_file = None\<rparr>)"
proof (rule save_writes [OF ensure_dirs_fresh_store])
  show "fs_write_toml mem_os (fresh_store\<lparr>profiles_dir := Some []\<rparr>) (get_config_path pname)
     (PDict (kept_items (model_dump (c\<lparr>profile := (profile c)\<lparr>name := pname\<rparr>\<rparr>)))) =
    (Inr (),
     \<lparr>searchable = True, default_config_file = None,
       profiles_dir =
         Some [(pname @ ''.toml'',
                File (Toml (kept_items
                              (model_dump (c\<lparr>profile := (profile c)\<lparr>name := pname\<rparr>\<rparr>)))))],
       active_profile_file = None\<rparr>)"
    using assms
    by (simp add: mem_write_toml_def mem_node_def mem_put_def get_config_path_def
          fresh_store_def)
qed

lemma with_defaults_test_config:
  "n \<noteq> [] \<Longrightarrow>
     with_defaults (test_config\<lparr>profile := (profile test_config)\<lparr>name := n\<rparr>\<rparr>)
       = test_config\<lparr>profile := \<lparr>name = n\<rparr>\<rparr>"
  by (simp add: with_defaults_def test_config_def or_default_def or_default_int_def
        or_default_bool_def RoutingConfig_default_def TransportConfig_default_def
        SecurityConfig_default_def StorageConfig_default_def OutputConfig_default_def
        ProfileConfig_default_def)

text \<open>
  The configuration of the test with an empty \<open>api_host\<close>, saved under
  \<open>correct_name\<close> on an empty in-memory file system: it is loaded with the name
  \<open>correct_name\<close> and the default \<open>api_host\<close>.
\<close>

theorem save_load_round_trip_witness:
  "valid_config [] (test_config\<lparr>routing := RoutingConfig_default\<lparr>api_host := []\<rparr>\<rparr>)
   \<and> fst (save mem_os (test_config\<lparr>routing := RoutingConfig_default\<lparr>api_host := []\<rparr>\<rparr>)
              ''correct_name'' fresh_store) = Inr ()
   \<and> load mem_os no_lax [] Map.empty
         (snd (snd (save mem_os (test_config\<lparr>routing := RoutingConfig_default\<lparr>api_host := []\<rparr>\<rparr>)
                      ''correct_name'' fresh_store)))
         ''correct_name'' False
       = Inr (test_config\<lparr>profile := \<lparr>name = ''correct_name''\<rparr>\<rparr>)"
proof -
  let ?c = "test_config\<lparr>routing := RoutingConfig_default\<lparr>api_host := []\<rparr>\<rparr>"
  let ?s = "save mem_os ?c ''correct_name'' fresh_store"
  have v: "valid_config [] ?c"
    using valid_test_config
    by (simp add: valid_config_def test_config_def validate_mutually_exclusive_def
          validate_region_def RoutingConfig_default_def)
  have n: "''correct_name'' \<noteq> ''default''" "''correct_name'' \<noteq> []" by simp_all
  have pl: "plain_name (''correct_name'' @ ''.toml'')" by (simp add: plain_name_def)
  have ok: "fst ?s = Inr ()" by (simp add: save_fresh_store [OF n(1) pl])
  have "?s = (Inr (), fst (snd ?s), snd (snd ?s))" using ok by (metis prod.collapse)
  with reads_back_mem_os n(2) v
  have "reads_back mem_os \<and> ''correct_name'' \<noteq> [] \<and> valid_config [] ?c
          \<and> ?s = (Inr (), fst (snd ?s), snd (snd ?s))" by blast
  with save_load_round_trip
         [of mem_os "''correct_name''" "[]" ?c fresh_store "fst (snd ?s)" "snd (snd ?s)"
             no_lax Map.empty]
  have c1: "fst (snd ?s) = ?c\<lparr>profile := (profile ?c)\<lparr>name := ''correct_name''\<rparr>\<rparr>"
    and ld: "load mem_os no_lax [] Map.empty (snd (snd ?s)) ''correct_name'' False
               = Inr (with_defaults (fst (snd ?s)))"
    by blast+
  have "with_defaults (?c\<lparr>profile := (profile ?c)\<lparr>name := ''correct_name''\<rparr>\<rparr>)
                   = test_config\<lparr>profile := \<lparr>name = ''correct_name''\<rparr>\<rparr>"
    by (simp add: with_defaults_def test_config_def or_default_def or_default_int_def
          or_default_bool_def RoutingConfig_default_def TransportConfig_default_def
          SecurityConfig_default_def StorageConfig_default_def OutputConfig_default_def
          ProfileConfig_default_def)
  with ld c1 have "load mem_os no_lax [] Map.empty (snd (snd ?s)) ''correct_name'' False
       = Inr (test_config\<lparr>profile := \<lparr>name = ''correct_name''\<rparr>\<rparr>)" by simp
  with v ok show ?thesis by blast
qed

text \<open>
  The claim as stated has the loaded value equal the original wherever the original has
  no empty field, and has no condition on the saving. The configuration of the test has
  no empty field, and saved under \<open>correct_name\<close> it is loaded with the profile name
  \<open>correct_name\<close>, not \<open>wrong_name\<close>. Saved under the empty name it cannot be loaded
  under that name at all: \<open>load\<close> takes the empty name for the active profile. And
  where the profile's path is a directory, saving raises and so does loading.
\<close>

theorem save_load_profile_name_counterexample:
  "valid_config [] test_config
   \<and> with_defaults test_config = test_config
   \<and> fst (save mem_os test_config ''correct_name'' fresh_store) = Inr ()
   \<and> load mem_os no_lax [] Map.empty
         (snd (snd (save mem_os test_config ''correct_name'' fresh_store)))
         ''correct_name'' False
       = Inr (test_config\<lparr>profile := \<lparr>name = ''correct_name''\<rparr>\<rparr>)
   \<and> test_config\<lparr>profile := \<lparr>name = ''correct_name''\<rparr>\<rparr> \<noteq> test_config
   \<and> fst (save mem_os test_config [] fresh_store) = Inr ()
   \<and> load mem_os no_lax [] Map.empty (snd (snd (save mem_os test_config [] fresh_store)))
         [] False
       = Inl (ConfigError
                (''Profile '' @ [CHR 0x27] @ ''default'' @ [CHR 0x27] @ '' not found.''
                 @ [CHR 0x0A, CHR 0x0A]
                 @ ''Run '' @ [CHR 0x27] @ ''ax config init'' @ [CHR 0x27]
                 @ '' to create a configuration.'' @ [CHR 0x0A]
                 @ ''Or specify a different profile with --profile''))
   \<and> fst (save mem_os test_config ''dev''
             \<lparr>searchable = True, default_config_file = None,
              profiles_dir = Some [(''dev.toml'', Dir)], active_profile_file = None\<rparr>)
       = Inl (ConfigErrorFrom ''Failed to save config: '' OSError)
   \<and> load mem_os no_lax [] Map.empty
         (snd (snd (save mem_os test_config ''dev''
                      \<lparr>searchable = True, default_config_file = None,
                       profiles_dir = Some [(''dev.toml'', Dir)],
                       active_profile_file = None\<rparr>)))
         ''dev'' False
       = Inl (ConfigErrorFrom ''Failed to load config: '' OSError)"
proof -
  let ?c1 = "test_config\<lparr>profile := (profile test_config)\<lparr>name := ''correct_name''\<rparr>\<rparr>"
  let ?d = "\<lparr>searchable = True, default_config_file = None,
              profiles_dir = Some [(''dev.toml'', Dir)], active_profile_file = None\<rparr>"
  have wd: "with_defaults test_config = test_config"
    using with_defaults_test_config [of "''wrong_name''"] by (simp add: test_config_def)
  have "''correct_name'' \<noteq> []" by simp
  then have wd1: "with_defaults ?c1 = test_config\<lparr>profile := \<lparr>name = ''correct_name''\<rparr>\<rparr>"
    by (rule with_defaults_test_config)
  have cv: "Config_validate no_lax [] (kept_items (model_dump ?c1)) = Inr (with_defaults ?c1)"
    using valid_config_renamed [OF valid_test_config] by (rule Config_validate_dump)
  have n: "''correct_name'' \<noteq> ''default''" "''correct_name'' \<noteq> []" by simp_all
  have pl: "plain_name (''correct_name'' @ ''.toml'')" by (simp add: plain_name_def)
  have s1: "fst (save mem_os test_config ''correct_name'' fresh_store) = Inr ()"
    by (simp add: save_fresh_store [OF n(1) pl])
  have ld: "load mem_os no_lax [] Map.empty
              (snd (snd (save mem_os test_config ''correct_name'' fresh_store)))
              ''correct_name'' False
            = Inr (test_config\<lparr>profile := \<lparr>name = ''correct_name''\<rparr>\<rparr>)"
  proof -
    let ?fs = "snd (snd (save mem_os test_config ''correct_name'' fresh_store))"
    have ex: "fs_exists mem_os ?fs (get_config_path ''correct_name'') = Inr True"
      by (simp add: save_fresh_store [OF n(1) pl] mem_exists_def mem_node_def
            get_config_path_def plain_name_def ebind_def)
    have rd: "fs_read_toml mem_os ?fs (get_config_path ''correct_name'')
                = Inr (kept_items (model_dump ?c1))"
      by (simp add: save_fresh_store [OF n(1) pl] mem_read_toml_def mem_node_def
            get_config_path_def plain_name_def ebind_def)
    from load_file [OF n(2) ex rd cv, of Map.empty] show ?thesis unfolding wd1 .
  qed
  have ne: "test_config\<lparr>profile := \<lparr>name = ''correct_name''\<rparr>\<rparr> \<noteq> test_config"
    by (simp add: test_config_def)
  have n0: "[] \<noteq> ''default''" by simp
  have pl0: "plain_name ([] @ ''.toml'')" by (simp add: plain_name_def)
  have s0: "fst (save mem_os test_config [] fresh_store) = Inr ()"
    by (simp add: save_fresh_store [OF n0 pl0])
  have em: "load mem_os no_lax [] Map.empty (snd (snd (save mem_os test_config [] fresh_store)))
         [] False
       = Inl (ConfigError
                (''Profile '' @ [CHR 0x27] @ ''default'' @ [CHR 0x27] @ '' not found.''
                 @ [CHR 0x0A, CHR 0x0A]
                 @ ''Run '' @ [CHR 0x27] @ ''ax config init'' @ [CHR 0x27]
                 @ '' to create a configuration.'' @ [CHR 0x0A]
                 @ ''Or specify a different profile with --profile''))"
  proof -
    let ?fs = "snd (snd (save mem_os test_config [] fresh_store))"
    have a: "get_active_profile mem_os ?fs = Inr ''default''"
      by (simp add: save_fresh_store [OF n0 pl0] get_active_profile_def mem_exists_def
            mem_node_def ebind_def)
    have nd: "''default'' \<noteq> []" by simp
    have ex: "fs_exists mem_os ?fs (get_config_path ''default'') = Inr False"
      by (simp add: save_fresh_store [OF n0 pl0] mem_exists_def mem_node_def
            get_config_path_def ebind_def)
    have "load mem_os no_lax [] Map.empty ?fs [] False
            = load mem_os no_lax [] Map.empty ?fs ''default'' False"
      using a nd by (rule load_active)
    also have "\<dots> = Inl (ConfigError (not_found_message ''default''))"
      using nd ex by (rule load_not_found)
    finally show ?thesis by (simp add: not_found_message_def)
  qed
  have ed: "ensure_dirs mem_os ?d = (Inr (), ?d)"
    by (simp add: ensure_dirs_def mem_mkdir_def mem_node_def)
  have wf: "fs_write_toml mem_os ?d (get_config_path ''dev'')
     (PDict (kept_items (model_dump (test_config\<lparr>profile := (profile test_config)\<lparr>name := ''dev''\<rparr>\<rparr>))))
     = (Inl OSError, ?d)"
    by (simp add: mem_write_toml_def mem_node_def get_config_path_def plain_name_def)
  have sd: "save mem_os test_config ''dev'' ?d
              = (Inl (ConfigErrorFrom ''Failed to save config: '' OSError),
                 test_config\<lparr>profile := (profile test_config)\<lparr>name := ''dev''\<rparr>\<rparr>, ?d)"
    using ed wf by (rule save_write_raises)
  have ldd: "load mem_os no_lax [] Map.empty ?d ''dev'' False
               = Inl (ConfigErrorFrom ''Failed to load config: '' OSError)"
    by (simp add: load_def ebind_def mem_exists_def mem_read_toml_def mem_node_def
          get_config_path_def plain_name_def)
  have sd1: "fst (save mem_os test_config ''dev'' ?d)
               = Inl (ConfigErrorFrom ''Failed to save config: '' OSError)"
    unfolding sd by simp
  have sd2: "snd (snd (save mem_os test_config ''dev'' ?d)) = ?d" unfolding sd by simp
  show ?thesis
    unfolding sd2 using valid_test_config wd s1 ld ne s0 em sd1 ldd by (intro conjI)
qed

end
